theory Spec2Isabelle
  imports Main "HOL-Library.Word"
begin

unbundle bit_operations_syntax

section \<open>Machine types and constants of qcom-cpufreq-hw.c\<close>

type_synonym u8 = "8 word"
type_synonym u32 = "32 word"
type_synonym u64 = "64 word"

text \<open>The errno values the driver returns (negated, as in the kernel).\<close>

definition ENOENT :: int where "ENOENT = 2"
definition ENOMEM :: int where "ENOMEM = 12"
definition ENODEV :: int where "ENODEV = 19"
definition EINVAL :: int where "EINVAL = 22"
definition ERANGE :: int where "ERANGE = 34"
definition ENODATA :: int where "ENODATA = 61"
definition ETIMEDOUT :: int where "ETIMEDOUT = 110"

definition INT_MAX :: int where "INT_MAX = 2147483647"
definition U8_MAX :: int where "U8_MAX = 255"

definition LUT_MAX_ENTRIES :: nat where "LUT_MAX_ENTRIES = 40"
definition LUT_TURBO_IND :: u32 where "LUT_TURBO_IND = 1"
definition OSM_BOOT_TIME_US :: nat where "OSM_BOOT_TIME_US = 5"
definition HZ_PER_KHZ :: u32 where "HZ_PER_KHZ = 1000"
definition CPUFREQ_ENTRY_INVALID :: u32 where "CPUFREQ_ENTRY_INVALID = NOT 0"
definition CPUFREQ_TABLE_END :: u32 where "CPUFREQ_TABLE_END = NOT 1"
definition CPUFREQ_BOOST_FREQ :: u32 where "CPUFREQ_BOOST_FREQ = 1"

definition SEQ_APM_THRESH_VC :: nat where "SEQ_APM_THRESH_VC = 15"
definition SEQ_APM_THRESH_PREVC :: nat where "SEQ_APM_THRESH_PREVC = 31"
definition SEQ_MEM_ACC_LVAL :: nat where "SEQ_MEM_ACC_LVAL = 32"
definition SEQ_MEM_ACC_0 :: nat where "SEQ_MEM_ACC_0 = 55"
definition SEQ_APM_CROSSOVER_VC :: nat where "SEQ_APM_CROSSOVER_VC = 72"
definition SEQ_APM_PARAM :: nat where "SEQ_APM_PARAM = 76"
definition SEQ_MEM_ACC_CROSSOVER_VC :: nat where "SEQ_MEM_ACC_CROSSOVER_VC = 88"
definition SEQ_MEM_ACC_MAX_LEVELS :: nat where "SEQ_MEM_ACC_MAX_LEVELS = 4"

definition ACD_WRITE_CTL_UPDATE_EN :: u32 where "ACD_WRITE_CTL_UPDATE_EN = 1"
definition ACD_WRITE_CTL_SELECT_SHIFT :: nat where "ACD_WRITE_CTL_SELECT_SHIFT = 1"

text \<open>
  The macro \<open>SEQUENCER_REG(base, n)\<close> is \<open>(base + (n * 4))\<close>, with its argument
  \<open>n\<close> not parenthesised; the sequencer address is a \<open>u32\<close>. The driver uses it with
  a single constant or variable for \<open>n\<close>, except through \<open>SEQ_MEMACC_REG\<close>.
\<close>

definition SEQUENCER_REG :: "u32 \<Rightarrow> nat \<Rightarrow> u32" where
  "SEQUENCER_REG b n = b + of_nat (n * 4)"

text \<open>
  The macro \<open>SEQ_MEMACC_REG(base, n)\<close> is \<open>SEQUENCER_REG(base, SEQ_MEM_ACC_0 + n)\<close>.
  The preprocessor substitutes the text \<open>SEQ_MEM_ACC_0 + n\<close> for the argument, so the
  expression compiled is \<open>(base + (SEQ_MEM_ACC_0 + n * 4))\<close>: the multiplication binds
  to \<open>n\<close> alone, and the address is \<open>base + 55 + n * 4\<close>.
\<close>

definition SEQ_MEMACC_REG :: "u32 \<Rightarrow> nat \<Rightarrow> u32" where
  "SEQ_MEMACC_REG b n = b + of_nat (SEQ_MEM_ACC_0 + n * 4)"

text \<open>
  The kernel's bit-field macros on 32-bit registers. A mask \<open>GENMASK(h, l)\<close> is given by
  its two bit positions; \<open>FIELD_PREP\<close> shifts a value to the field and cuts it to the
  mask, \<open>FIELD_GET\<close> reads the field back.
\<close>

definition GENMASK :: "nat \<Rightarrow> nat \<Rightarrow> u32" where
  "GENMASK h l = push_bit l (mask (h + 1 - l))"

definition FIELD_PREP :: "nat \<Rightarrow> nat \<Rightarrow> u32 \<Rightarrow> u32" where
  "FIELD_PREP h l v = push_bit l v AND GENMASK h l"

definition FIELD_GET :: "nat \<Rightarrow> nat \<Rightarrow> u32 \<Rightarrow> u32" where
  "FIELD_GET h l r = drop_bit l (r AND GENMASK h l)"

text \<open>\<open>ffs\<close>: the position of the lowest set bit counted from 1, and 0 for 0.\<close>

definition ffs :: "u32 \<Rightarrow> nat" where
  "ffs w = (case find (\<lambda>n. bit w n) [0..<32] of None \<Rightarrow> 0 | Some n \<Rightarrow> n + 1)"

section \<open>Data model\<close>

text \<open>
  \<open>struct qcom_cpufreq_soc_setup_data\<close>: of its register offsets, the ones that
  the LUT programming reads.
\<close>

record qcom_cpufreq_soc_setup_data =
  reg_osm_sequencer :: nat
  reg_override :: nat
  reg_spare :: nat
  reg_seq1 :: nat

text \<open>\<open>struct qcom_cpufreq_soc_acd_data\<close>: offsets are \<open>u8\<close>, values \<open>u32\<close>.\<close>

record qcom_cpufreq_soc_acd_data =
  tl_delay_reg :: u8
  acd_ctrl_reg :: u8
  softstart_reg :: u8
  ext_intf_reg :: u8
  auto_xfer_reg :: u8
  auto_xfer_cfg_reg :: u8
  auto_xfer_ctl_reg :: u8
  auto_xfer_sts_reg :: u8
  dcvs_sw_reg :: u8
  gfmux_cfg_reg :: u8
  write_ctl_reg :: u8
  write_sts_reg :: u8
  tl_delay_val :: u32
  acd_ctrl_val :: u32
  softstart_val :: u32
  ext_intf0_val :: u32
  ext_intf1_val :: u32
  auto_xfer_val :: u32

text \<open>\<open>struct qcom_cpufreq_hw_params\<close>: one row of the lookup table.\<close>

record qcom_cpufreq_hw_params =
  volt_lut_val :: u32
  freq_lut_val :: u32
  override_val :: u32
  spare_val :: u32

text \<open>
  \<open>struct qcom_cpufreq_soc_data\<close>. Register offsets are added to the mapped base, so
  they are kept as naturals.
\<close>

record qcom_cpufreq_soc_data =
  reg_enable :: nat
  reg_index :: nat
  reg_freq_lut :: nat
  reg_freq_lut_src_mask :: u32
  reg_volt_lut :: nat
  reg_current_vote :: nat
  reg_perf_state :: nat
  lut_row_size :: nat
  clk_hw_div :: nat
  uses_tz :: bool
  setup_regs :: qcom_cpufreq_soc_setup_data
  acd_data :: qcom_cpufreq_soc_acd_data

text \<open>
  \<open>struct qcom_cpufreq_data\<close>: the mapped base address, the SoC data and the
  throttle bookkeeping. The mutex, the work item and the back pointer to the policy
  are part of the kernel state below.
\<close>

record qcom_cpufreq_data =
  base :: nat
  soc_data :: qcom_cpufreq_soc_data
  throttle_irq :: int
  cancel_throttle :: bool

text \<open>One entry of the cpufreq core's \<open>struct cpufreq_frequency_table\<close>.\<close>

record cpufreq_frequency_table =
  flags :: u32
  frequency :: u32

text \<open>The fields of \<open>struct cpufreq_policy\<close> that the driver reads or sets.\<close>

record cpufreq_policy =
  cpu :: nat
  cpus :: "nat list"
  related_cpus :: "nat list"
  freq_table :: "cpufreq_frequency_table list"
  cached_resolved_idx :: u32
  fast_switch_possible :: bool
  driver_data :: qcom_cpufreq_data

text \<open>
  An operating point of the OPP library: its rate in Hz and its voltage in microvolts
  (both \<open>unsigned long\<close>), and the properties of its device-tree node, when it has
  one: \<open>qcom,pll-override\<close>, \<open>qcom,spare-data\<close> and \<open>qcom,pll-div\<close>.
\<close>

record opp_node =
  pll_override :: "u32 option"
  spare_data :: "u32 option"
  pll_div :: "u32 option"

record dev_pm_opp =
  opp_rate :: u64
  opp_uV :: u64
  opp_np :: "opp_node option"

text \<open>
  The part of the kernel the runtime paths touch: the memory-mapped registers by
  address, the policy registered for each CPU (\<open>cpufreq_cpu_get_raw\<close>), the device of
  each CPU (\<open>get_cpu_device\<close>) with its table of available operating points in
  ascending order of rate, the driver's global \<open>icc_scaling_enabled\<close>, what
  \<open>dev_pm_opp_set_opp\<close> answers for an operating point, the operating points
  voted so far, and the number of CPU ids.
\<close>

record kernel =
  mmio :: "nat \<Rightarrow> u32"
  policies :: "nat \<Rightarrow> cpufreq_policy option"
  cpu_device :: "nat \<Rightarrow> nat option"
  opp_tables :: "nat \<Rightarrow> dev_pm_opp list option"
  icc_scaling_enabled :: bool
  set_opp_ret :: "dev_pm_opp \<Rightarrow> int"
  opp_votes :: "u64 list"
  nr_cpu_ids :: nat

section \<open>Runtime control\<close>

definition writel_relaxed :: "u32 \<Rightarrow> nat \<Rightarrow> kernel \<Rightarrow> kernel" where
  "writel_relaxed v a k = k\<lparr>mmio := (mmio k)(a := v)\<rparr>"

definition readl_relaxed :: "kernel \<Rightarrow> nat \<Rightarrow> u32" where
  "readl_relaxed k a = mmio k a"

text \<open>
  \<open>dev_pm_opp_find_freq_exact(dev, freq, true)\<close> of the OPP library: the operating
  point of that rate, \<open>-ENODEV\<close> without a table and \<open>-ERANGE\<close> without a match.
\<close>

definition dev_pm_opp_find_freq_exact :: "kernel \<Rightarrow> nat \<Rightarrow> u64 \<Rightarrow> int + dev_pm_opp" where
  "dev_pm_opp_find_freq_exact k dev freq =
     (case opp_tables k dev of
        None \<Rightarrow> Inl (- ENODEV)
      | Some tbl \<Rightarrow>
          (case find (\<lambda>p. opp_rate p = freq) tbl of
             None \<Rightarrow> Inl (- ERANGE)
           | Some p \<Rightarrow> Inr p))"

text \<open>\<open>dev_pm_opp_set_opp\<close>: the vote is recorded and the library's answer returned.\<close>

definition dev_pm_opp_set_opp :: "kernel \<Rightarrow> dev_pm_opp \<Rightarrow> int \<times> kernel" where
  "dev_pm_opp_set_opp k p = (set_opp_ret k p, k\<lparr>opp_votes := opp_votes k @ [opp_rate p]\<rparr>)"

definition qcom_cpufreq_set_bw :: "kernel \<Rightarrow> cpufreq_policy \<Rightarrow> u64 \<Rightarrow> int \<times> kernel" where
  "qcom_cpufreq_set_bw k policy freq_khz =
     (let freq_hz = freq_khz * 1000 in
      case cpu_device k (cpu policy) of
        None \<Rightarrow> (- ENODEV, k)
      | Some dev \<Rightarrow>
          (case dev_pm_opp_find_freq_exact k dev freq_hz of
             Inl e \<Rightarrow> (e, k)
           | Inr p \<Rightarrow> dev_pm_opp_set_opp k p))"

text \<open>
  \<open>policy->freq_table[index]\<close>: the table is an allocated array, and C gives no
  meaning to a read past it. Such a read is \<open>None\<close> here.
\<close>

definition freq_table_at :: "cpufreq_policy \<Rightarrow> u32 \<Rightarrow> cpufreq_frequency_table option" where
  "freq_table_at policy index =
     (if unat index < length (freq_table policy) then Some (freq_table policy ! unat index)
      else None)"

text \<open>
  \<open>qcom_cpufreq_hw_target_index\<close>: the frequency of the row is read, the index is
  written to the performance-state register, the bandwidth vote is cast when
  interconnect scaling is enabled and its result dropped, and 0 is returned.
\<close>

definition qcom_cpufreq_hw_target_index ::
  "kernel \<Rightarrow> cpufreq_policy \<Rightarrow> u32 \<Rightarrow> (int \<times> kernel) option" where
  "qcom_cpufreq_hw_target_index k policy index =
     (let data = driver_data policy; soc = soc_data data in
      case freq_table_at policy index of
        None \<Rightarrow> None
      | Some row \<Rightarrow>
          (let freq = frequency row;
               k1 = writel_relaxed index (base data + reg_perf_state soc) k;
               k2 = (if icc_scaling_enabled k1
                     then snd (qcom_cpufreq_set_bw k1 policy (ucast freq))
                     else k1)
           in Some (0, k2)))"

definition cpufreq_cpu_get_raw :: "kernel \<Rightarrow> nat \<Rightarrow> cpufreq_policy option" where
  "cpufreq_cpu_get_raw k c = policies k c"

text \<open>
  \<open>qcom_cpufreq_hw_get\<close>: 0 without a policy; otherwise the register is read, the
  index is cut to \<open>LUT_MAX_ENTRIES - 1\<close> and the frequency of that row returned.
\<close>

definition qcom_cpufreq_hw_get :: "kernel \<Rightarrow> nat \<Rightarrow> u32 option" where
  "qcom_cpufreq_hw_get k c =
     (case cpufreq_cpu_get_raw k c of
        None \<Rightarrow> Some 0
      | Some policy \<Rightarrow>
          (let data = driver_data policy; soc = soc_data data;
               index = readl_relaxed k (base data + reg_perf_state soc);
               index = min index (of_nat LUT_MAX_ENTRIES - 1)
           in map_option frequency (freq_table_at policy index)))"

text \<open>\<open>qcom_cpufreq_hw_fast_switch\<close>: the cached index is written with no vote.\<close>

definition qcom_cpufreq_hw_fast_switch ::
  "kernel \<Rightarrow> cpufreq_policy \<Rightarrow> u32 \<Rightarrow> (u32 \<times> kernel) option" where
  "qcom_cpufreq_hw_fast_switch k policy target_freq =
     (let data = driver_data policy; soc = soc_data data;
          index = cached_resolved_idx policy;
          k1 = writel_relaxed index (base data + reg_perf_state soc) k
      in map_option (\<lambda>row. (frequency row, k1)) (freq_table_at policy index))"

text \<open>
  The rows of a resolved table that the cpufreq core walks: those before the
  \<open>CPUFREQ_TABLE_END\<close> entry.
\<close>

definition entry_count :: "cpufreq_frequency_table list \<Rightarrow> nat" where
  "entry_count tbl = length (takeWhile (\<lambda>e. frequency e \<noteq> CPUFREQ_TABLE_END) tbl)"


section \<open>Reading the lookup table\<close>

text \<open>
  What \<open>qcom_cpufreq_hw_read_lut\<close> asks of its surroundings: whether \<open>kcalloc\<close>
  returns memory, the answers of the OPP
  library to \<open>dev_pm_opp_of_add_table\<close>, \<open>dev_pm_opp_add\<close>,
  \<open>dev_pm_opp_adjust_voltage\<close> and \<open>dev_pm_opp_enable\<close>, and the driver's globals
  \<open>xo_rate\<close> and \<open>cpu_hw_rate\<close>. The operating points themselves stay with the
  library; of its calls only the answers are kept.
\<close>

record read_lut_env =
  kcalloc_ok :: bool
  of_add_table_ret :: int
  opp_add_ret :: "u64 \<Rightarrow> u64 \<Rightarrow> int"
  adjust_voltage_ret :: "u64 \<Rightarrow> u64 \<Rightarrow> int"
  opp_enable_ret :: "u64 \<Rightarrow> int"
  lut_xo_rate :: u64
  cpu_hw_rate :: u64

definition qcom_cpufreq_update_opp :: "read_lut_env \<Rightarrow> bool \<Rightarrow> u64 \<Rightarrow> u64 \<Rightarrow> int" where
  "qcom_cpufreq_update_opp e icc freq_khz volt =
     (let freq_hz = freq_khz * 1000 in
      if \<not> icc then opp_add_ret e freq_hz volt
      else
        (let ret = adjust_voltage_ret e freq_hz volt in
         if ret \<noteq> 0 then ret else opp_enable_ret e freq_hz))"

text \<open>
  What the loop reads of row \<open>i\<close>: the frequency in kHz, from the L-value and the
  crystal rate or, for the alternate source, from \<open>cpu_hw_rate\<close>; the core count;
  and the voltage in microvolts.
\<close>

definition lut_row_freq :: "read_lut_env \<Rightarrow> kernel \<Rightarrow> qcom_cpufreq_data \<Rightarrow> nat \<Rightarrow> u32" where
  "lut_row_freq e k drv_data i =
     (let soc = soc_data drv_data;
          d = readl_relaxed k (base drv_data + reg_freq_lut soc + i * lut_row_size soc);
          src = drop_bit (ffs (reg_freq_lut_src_mask soc) - 1)
                  (d AND reg_freq_lut_src_mask soc);
          lval = FIELD_GET 7 0 d
      in if src \<noteq> 0 then ucast (lut_xo_rate e * ucast lval div 1000)
         else ucast (cpu_hw_rate e div 1000))"

definition lut_row_core_count :: "kernel \<Rightarrow> qcom_cpufreq_data \<Rightarrow> nat \<Rightarrow> u32" where
  "lut_row_core_count k drv_data i =
     (let soc = soc_data drv_data;
          d = readl_relaxed k (base drv_data + reg_freq_lut soc + i * lut_row_size soc)
      in FIELD_GET 18 16 d)"

definition lut_row_volt :: "kernel \<Rightarrow> qcom_cpufreq_data \<Rightarrow> nat \<Rightarrow> u32" where
  "lut_row_volt k drv_data i =
     (let soc = soc_data drv_data;
          d = readl_relaxed k (base drv_data + reg_volt_lut soc + i * lut_row_size soc)
      in FIELD_GET 11 0 d * 1000)"

text \<open>
  The entry of row \<open>i\<close>: the frequency when it differs from the one before, the row
  is not a turbo row and the operating point is updated; invalid when the update
  fails or the row is a turbo row; untouched otherwise.
\<close>

definition read_lut_entry ::
  "read_lut_env \<Rightarrow> bool \<Rightarrow> nat \<Rightarrow> u32 \<Rightarrow> u32 \<Rightarrow> u32 \<Rightarrow> u32 \<Rightarrow>
   cpufreq_frequency_table list \<Rightarrow> cpufreq_frequency_table list" where
  "read_lut_entry e icc i prev_freq freq volt core_count table =
     (if freq \<noteq> prev_freq \<and> core_count \<noteq> LUT_TURBO_IND then
        (if qcom_cpufreq_update_opp e icc (ucast freq) (ucast volt) = 0
         then table[i := (table ! i)\<lparr>frequency := freq\<rparr>]
         else table[i := (table ! i)\<lparr>frequency := CPUFREQ_ENTRY_INVALID\<rparr>])
      else if core_count = LUT_TURBO_IND
      then table[i := (table ! i)\<lparr>frequency := CPUFREQ_ENTRY_INVALID\<rparr>]
      else table)"

text \<open>
  At the row that repeats the frequency of the row before: when the entry before is
  invalid and its operating point is updated, it becomes the boost entry.
\<close>

definition read_lut_boost ::
  "read_lut_env \<Rightarrow> bool \<Rightarrow> nat \<Rightarrow> u32 \<Rightarrow> u32 \<Rightarrow>
   cpufreq_frequency_table list \<Rightarrow> cpufreq_frequency_table list" where
  "read_lut_boost e icc i prev_freq volt table =
     (let prev = table ! (i - 1) in
      if frequency prev = CPUFREQ_ENTRY_INVALID \<and>
         qcom_cpufreq_update_opp e icc (ucast prev_freq) (ucast volt) = 0
      then table[i - 1 := prev\<lparr>frequency := prev_freq, flags := CPUFREQ_BOOST_FREQ\<rparr>]
      else table)"

text \<open>
  The loop over the rows of the hardware table, from row \<open>i\<close> on with the frequency
  of the row before: it returns the index at which it stopped and the table. It
  stops at the first row that repeats the frequency of the row before it, after
  turning that row into the boost entry when it was marked invalid.
\<close>

function read_lut_rows ::
  "read_lut_env \<Rightarrow> kernel \<Rightarrow> qcom_cpufreq_data \<Rightarrow> bool \<Rightarrow> nat \<Rightarrow> u32 \<Rightarrow>
   cpufreq_frequency_table list \<Rightarrow> nat \<times> cpufreq_frequency_table list" where
  "read_lut_rows e k drv_data icc i prev_freq table =
     (if i < LUT_MAX_ENTRIES then
        (let freq = lut_row_freq e k drv_data i;
             volt = lut_row_volt k drv_data i;
             table1 = read_lut_entry e icc i prev_freq freq volt (lut_row_core_count k drv_data i)
                        table
         in if 0 < i \<and> prev_freq = freq
            then (i, read_lut_boost e icc i prev_freq volt table1)
            else read_lut_rows e k drv_data icc (i + 1) freq table1)
      else (i, table))"
  by pat_completeness auto
termination
  by (relation "measure (\<lambda>(e, k, d, icc, i, prev, table). LUT_MAX_ENTRIES - i)") auto

declare read_lut_rows.simps [simp del]

text \<open>
  \<open>qcom_cpufreq_hw_read_lut\<close>: the table is allocated zeroed with
  \<open>LUT_MAX_ENTRIES + 1\<close> entries, the answer to \<open>dev_pm_opp_of_add_table\<close> decides
  about interconnect scaling and fast switching, the rows are read, and the end
  marker is stored at the index where the loop stopped. It returns its result, the
  value of \<open>icc_scaling_enabled\<close> and the policy.
\<close>

definition qcom_cpufreq_hw_read_lut ::
  "read_lut_env \<Rightarrow> kernel \<Rightarrow> cpufreq_policy \<Rightarrow> int \<times> bool \<times> cpufreq_policy" where
  "qcom_cpufreq_hw_read_lut e k policy =
     (let table = replicate (LUT_MAX_ENTRIES + 1) \<lparr>flags = 0, frequency = 0\<rparr>;
          ret = of_add_table_ret e
      in if \<not> kcalloc_ok e then (- ENOMEM, icc_scaling_enabled k, policy)
         else if ret \<noteq> 0 \<and> ret \<noteq> - ENODEV then (ret, icc_scaling_enabled k, policy)
         else
           (let icc = (ret = 0);
                policy = (if ret = 0 then policy else policy\<lparr>fast_switch_possible := True\<rparr>);
                r = read_lut_rows e k (driver_data policy) icc 0 0 table;
                i = fst r;
                table = (snd r)[i := (snd r ! i)\<lparr>frequency := CPUFREQ_TABLE_END\<rparr>]
            in (0, icc, policy\<lparr>freq_table := table\<rparr>)))"

section \<open>Generating the table rows\<close>

text \<open>
  \<open>struct cpr_ext_data\<close> of the voltage-regulation driver: the two threshold
  voltages, zero or less meaning absent.
\<close>

record cpr_ext_data =
  apm_threshold_uV :: int
  mem_acc_threshold_uV :: int

text \<open>
  What \<open>qcom_cpufreq_gen_params\<close> asks of its collaborators: the answer of
  \<open>devm_pm_opp_attach_genpd\<close> and whether it left a virtual device, the driver data
  of that device, the answer of \<open>dev_pm_opp_get_opp_count\<close>, the available operating
  points in ascending order of rate, and the driver's global \<open>xo_rate\<close>.
\<close>

record genpd_env =
  attach_genpd_ret :: int
  genpd_cpr_vdev :: bool
  cpr_data :: "cpr_ext_data option"
  opp_count :: int
  opps :: "dev_pm_opp list"
  xo_rate :: u64

text \<open>
  \<open>dev_pm_opp_find_freq_ceil\<close> and \<open>dev_pm_opp_find_freq_floor\<close> on a table in
  ascending order: the lowest operating point at or above the rate, the highest at
  or below it; \<open>None\<close> stands for the library's \<open>-ERANGE\<close>.
\<close>

definition opp_find_freq_ceil :: "dev_pm_opp list \<Rightarrow> u64 \<Rightarrow> dev_pm_opp option" where
  "opp_find_freq_ceil tbl rate = find (\<lambda>p. rate \<le> opp_rate p) tbl"

definition opp_find_freq_floor :: "dev_pm_opp list \<Rightarrow> u64 \<Rightarrow> dev_pm_opp option" where
  "opp_find_freq_floor tbl rate = find (\<lambda>p. opp_rate p \<le> rate) (rev tbl)"

text \<open>The out-parameters of \<open>qcom_cpufreq_gen_params\<close>; \<open>num_entries\<close> is a \<open>u8\<close>.\<close>

record gen_params_out =
  hw_tbl :: "qcom_cpufreq_hw_params list"
  apm_vc :: int
  acc_vc :: int
  num_entries :: nat

text \<open>
  The body of the loop of \<open>qcom_cpufreq_gen_params\<close> for the operating point found at
  index \<open>i\<close>. The rows are written at increasing indices from 0, so the array is the
  list of the rows written so far. \<open>millivolts\<close> is a \<open>u32\<close> that first holds the
  microvolts; its comparisons with the \<open>int\<close> thresholds are unsigned.
\<close>

definition gen_params_entry ::
  "genpd_env \<Rightarrow> qcom_cpufreq_soc_data \<Rightarrow> int \<Rightarrow> int \<Rightarrow> int \<Rightarrow> nat \<Rightarrow> dev_pm_opp \<Rightarrow>
   gen_params_out \<Rightarrow> int + gen_params_out" where
  "gen_params_entry g soc cpu_count apm_uV acc_uV i p out =
     (case opp_np p of
        None \<Rightarrow> Inl (- ENOENT)
      | Some np \<Rightarrow>
          (case pll_override np of
             None \<Rightarrow> Inl (- EINVAL)
           | Some ovr \<Rightarrow>
               (let spare = (case spare_data np of None \<Rightarrow> 0 | Some v \<Rightarrow> v);
                    pdiv = (case pll_div np of None \<Rightarrow> 0 | Some v \<Rightarrow> v);
                    microvolts = (ucast (opp_uV p) :: u32);
                    out1 = (if word_of_int apm_uV \<le> microvolts \<and> apm_vc out < 0
                            then out\<lparr>apm_vc := int i\<rparr> else out);
                    out2 = (if word_of_int acc_uV \<le> microvolts \<and> acc_vc out1 < 0
                            then out1\<lparr>acc_vc := int i\<rparr> else out1);
                    millivolts = microvolts div 1000
                in if millivolts < 150 \<or> 1400 < millivolts then Inl (- EINVAL)
                   else
                     (let volt = FIELD_PREP 21 16 (of_nat i) OR FIELD_PREP 11 0 millivolts;
                          f_src = push_bit (ffs (reg_freq_lut_src_mask soc) - 1)
                                    (if i = 0 then 0 else 1 :: u32);
                          freq = f_src OR ucast (opp_rate p div ucast (ucast (xo_rate g) :: u32));
                          freq = freq OR FIELD_PREP 18 16 (word_of_int cpu_count);
                          freq = freq OR FIELD_PREP 25 24 pdiv
                      in Inr (out2\<lparr>hw_tbl := hw_tbl out2 @
                                [\<lparr>volt_lut_val = volt, freq_lut_val = freq,
                                  override_val = ovr, spare_val = spare\<rparr>]\<rparr>)))))"

text \<open>
  The loop \<open>for (i = 0, rate = 1000; i <= gpd_opp_cnt; rate++, i++)\<close>: it leaves when the
  library finds no operating point at or above \<open>rate\<close>, and returns from the function
  on a malformed entry. The library sets \<open>rate\<close> to the rate of the point it found.
\<close>

function gen_params_loop ::
  "genpd_env \<Rightarrow> qcom_cpufreq_soc_data \<Rightarrow> int \<Rightarrow> int \<Rightarrow> int \<Rightarrow> int \<Rightarrow> nat \<Rightarrow> u64 \<Rightarrow>
   gen_params_out \<Rightarrow> int + (nat \<times> gen_params_out)" where
  "gen_params_loop g soc cpu_count apm_uV acc_uV gpd_opp_cnt i rate out =
     (if int i \<le> gpd_opp_cnt then
        (case opp_find_freq_ceil (opps g) rate of
           None \<Rightarrow> Inr (i, out)
         | Some p \<Rightarrow>
             (case gen_params_entry g soc cpu_count apm_uV acc_uV i p out of
                Inl e \<Rightarrow> Inl e
              | Inr out' \<Rightarrow>
                  gen_params_loop g soc cpu_count apm_uV acc_uV gpd_opp_cnt (i + 1)
                    (opp_rate p + 1) out'))
      else Inr (i, out))"
  by pat_completeness auto
termination
  by (relation "measure (\<lambda>(g, soc, cc, apm, acc, cnt, i, rate, out). nat (cnt + 1 - int i))") auto

declare gen_params_loop.simps [simp del]

definition qcom_cpufreq_gen_params ::
  "genpd_env \<Rightarrow> qcom_cpufreq_soc_data \<Rightarrow> int \<Rightarrow> gen_params_out \<Rightarrow> int \<times> gen_params_out" where
  "qcom_cpufreq_gen_params g soc cpu_count out =
     (if attach_genpd_ret g \<noteq> 0 then (attach_genpd_ret g, out)
      else if \<not> genpd_cpr_vdev g then (- EINVAL, out)
      else
        (case cpr_data g of
           None \<Rightarrow> (- ENODATA, out)
         | Some cpr \<Rightarrow>
             (let gpd_opp_cnt = opp_count g in
              if gpd_opp_cnt < 2
              then ((if 0 < gpd_opp_cnt then - EINVAL else gpd_opp_cnt), out)
              else
                (let apm_uV = apm_threshold_uV cpr in
                 if apm_uV \<le> 0 then (- EINVAL, out)
                 else
                   (let out1 = out\<lparr>apm_vc := - 1\<rparr>;
                        acc_uV = (if mem_acc_threshold_uV cpr \<le> 0 then INT_MAX
                                  else mem_acc_threshold_uV cpr);
                        out2 = (if mem_acc_threshold_uV cpr \<le> 0 then out1\<lparr>acc_vc := U8_MAX\<rparr>
                                else out1\<lparr>acc_vc := - 1\<rparr>);
                        out3 = out2\<lparr>hw_tbl := []\<rparr>
                    in case gen_params_loop g soc cpu_count apm_uV acc_uV gpd_opp_cnt 0 1000 out3 of
                         Inl e \<Rightarrow> (e, out3)
                       | Inr (i, out4) \<Rightarrow>
                           (let out5 = (if acc_uV \<noteq> INT_MAX \<and>
                                           acc_vc out4 < int SEQ_MEM_ACC_MAX_LEVELS - 1
                                        then out4\<lparr>acc_vc := U8_MAX\<rparr> else out4)
                            in if int i < gpd_opp_cnt then (- EINVAL, out5)
                               else (0, out5\<lparr>num_entries := i mod 256\<rparr>)))))))"


section \<open>Programming the lookup table\<close>

text \<open>
  What reaches the hardware while the table is programmed: a \<open>writel\<close> at an offset of
  the domain's mapped base, and a \<open>qcom_scm_io_writel\<close> of a value to a physical
  address through the secure firmware.
\<close>

datatype io = Writel nat u32 | Scm u32 u32

text \<open>
  A stretch of straight-line writes. Every firmware call is followed by
  \<open>if (ret) return ret\<close>: the run stops at the first call that \<open>scm\<close> answers with
  a non-zero value and returns that value with the writes made so far.
\<close>

fun exec_io :: "(u32 \<Rightarrow> u32 \<Rightarrow> int) \<Rightarrow> io list \<Rightarrow> int \<times> io list" where
  "exec_io scm [] = (0, [])"
| "exec_io scm (Writel a v # ops) =
     (let r = exec_io scm ops in (fst r, Writel a v # snd r))"
| "exec_io scm (Scm a v # ops) =
     (if scm a v = 0 then (let r = exec_io scm ops in (fst r, Scm a v # snd r))
      else (scm a v, [Scm a v]))"

text \<open>
  The locals \<open>last_spare\<close>, \<open>acc_idx\<close> and \<open>acc_val\<close> of
  \<open>qcom_cpufreq_hw_write_lut\<close> that the loop over the table slots updates.
\<close>

record lut_scan =
  last_spare :: u32
  acc_idx :: nat
  acc_val :: "int list"

text \<open>
  The row for slot \<open>i\<close>: the real row below \<open>num_entries\<close>, the last real row from
  there on. The function has returned before the loop unless \<open>num_entries\<close> is 2 or
  more.
\<close>

definition lut_entry :: "qcom_cpufreq_hw_params list \<Rightarrow> nat \<Rightarrow> nat \<Rightarrow> qcom_cpufreq_hw_params" where
  "lut_entry tbl n i = (if i < n then tbl ! i else tbl ! (n - 1))"

text \<open>The five \<open>writel\<close> calls of one slot.\<close>

definition lut_slot_writes ::
  "qcom_cpufreq_soc_data \<Rightarrow> qcom_cpufreq_hw_params \<Rightarrow> nat \<Rightarrow> io list" where
  "lut_slot_writes sdata entry i =
     (let pos = i * lut_row_size sdata; sregs = setup_regs sdata in
      [Writel (reg_index sdata + pos) (of_nat i),
       Writel (reg_volt_lut sdata + pos) (volt_lut_val entry),
       Writel (reg_freq_lut sdata + pos) (freq_lut_val entry),
       Writel (reg_override sregs + pos) (override_val entry),
       Writel (reg_spare sregs + pos) (spare_val entry)])"

text \<open>
  The rest of the loop body: unless the spare value does not exceed the last one
  recorded or three values are recorded already, the pair \<open>(i - 1, i)\<close> is recorded.
\<close>

definition lut_scan_step :: "qcom_cpufreq_hw_params \<Rightarrow> nat \<Rightarrow> lut_scan \<Rightarrow> lut_scan" where
  "lut_scan_step entry i s =
     (if spare_val entry \<le> last_spare s \<or> SEQ_MEM_ACC_MAX_LEVELS - 1 \<le> acc_idx s then s
      else s\<lparr>last_spare := spare_val entry,
             acc_val := (acc_val s)[acc_idx s := int i - 1, acc_idx s + 1 := int i],
             acc_idx := acc_idx s + 2\<rparr>)"

definition write_lut_row ::
  "qcom_cpufreq_soc_data \<Rightarrow> qcom_cpufreq_hw_params list \<Rightarrow> nat \<Rightarrow> nat \<Rightarrow>
   io list \<times> lut_scan \<Rightarrow> io list \<times> lut_scan" where
  "write_lut_row sdata tbl n i st =
     (let entry = lut_entry tbl n i in
      (fst st @ lut_slot_writes sdata entry i, lut_scan_step entry i (snd st)))"

text \<open>\<open>for (i = 0; i < LUT_MAX_ENTRIES; i++)\<close>.\<close>

definition write_lut_rows ::
  "qcom_cpufreq_soc_data \<Rightarrow> qcom_cpufreq_hw_params list \<Rightarrow> nat \<Rightarrow>
   io list \<times> lut_scan \<Rightarrow> io list \<times> lut_scan" where
  "write_lut_rows sdata tbl n st = fold (write_lut_row sdata tbl n) [0..<LUT_MAX_ENTRIES] st"

text \<open>
  The customized corner: the block entered when \<open>acc_vc > 0 && acc_vc != U8_MAX\<close>,
  after its firmware call. \<open>acc_vc\<close> is lowered by one, the upper pair is replaced
  when the lowered corner is below \<open>acc_val[3]\<close>, and the two lower values are moved
  down where they are not below their successor.
\<close>

definition memacc_customize :: "int \<Rightarrow> int list \<Rightarrow> int list" where
  "memacc_customize acc_vc0 acc0 =
     (let acc_vc = acc_vc0 - 1;
          acc1 = (if acc_vc < acc0 ! 3 then acc0[2 := acc_vc - 1, 3 := acc_vc] else acc0);
          acc2 = (if acc1 ! 2 \<le> acc1 ! 1 then acc1[1 := acc1 ! 2 - 1] else acc1);
          acc3 = (if acc2 ! 1 \<le> acc2 ! 0 then acc2[0 := acc2 ! 1 - 1] else acc2)
      in acc3)"

text \<open>The four values that the MEM-ACC writes carry.\<close>

definition memacc_derive :: "int \<Rightarrow> int list \<Rightarrow> int list" where
  "memacc_derive acc_vc0 acc =
     (if 0 < acc_vc0 \<and> acc_vc0 \<noteq> U8_MAX then memacc_customize acc_vc0 acc else acc)"

text \<open>
  What \<open>qcom_cpufreq_hw_write_lut\<close> asks of its surroundings: the start of the
  \<open>osm-domain\<close> resource when there is one, the collaborators of
  \<open>qcom_cpufreq_gen_params\<close>, the answer of the secure firmware to each write, and the
  contents of the local array \<open>acc_val\<close>, which the function does not initialise.
\<close>

record lut_env =
  osm_rsrc :: "u64 option"
  genpd :: genpd_env
  scm_ret :: "u32 \<Rightarrow> u32 \<Rightarrow> int"
  acc_val_stack :: "nat \<Rightarrow> int"

definition lut_scan_init :: "lut_env \<Rightarrow> lut_scan" where
  "lut_scan_init e =
     \<lparr>last_spare = 1, acc_idx = 0,
      acc_val = map (acc_val_stack e) [0..<SEQ_MEM_ACC_MAX_LEVELS]\<rparr>"

definition gen_params_init :: gen_params_out where
  "gen_params_init = \<lparr>hw_tbl = [], apm_vc = INT_MAX, acc_vc = U8_MAX, num_entries = 0\<rparr>"

text \<open>
  The writes after the MEM-ACC values are settled: the four values, the L-value of
  the row at \<open>acc_val[3]\<close>, and the APM corner with its default, its predecessor and
  its parameter word. The \<open>int\<close> values become \<open>u32\<close> arguments.
\<close>

definition write_lut_tail ::
  "qcom_cpufreq_soc_data \<Rightarrow> u32 \<Rightarrow> gen_params_out \<Rightarrow> int list \<Rightarrow> io list" where
  "write_lut_tail sdata seq_addr gp acc =
     (let acc_lval = FIELD_GET 7 0 (freq_lut_val (hw_tbl gp ! nat (acc ! 3)));
          apm = (if apm_vc gp = INT_MAX then int LUT_MAX_ENTRIES - 1 else apm_vc gp)
      in map (\<lambda>i. Scm (SEQ_MEMACC_REG seq_addr i) (word_of_int (acc ! i)))
             [0..<SEQ_MEM_ACC_MAX_LEVELS] @
         [Scm (SEQUENCER_REG seq_addr SEQ_MEM_ACC_LVAL) acc_lval,
          Writel (reg_seq1 (setup_regs sdata)) (of_nat (num_entries gp)),
          Scm (SEQUENCER_REG seq_addr SEQ_APM_CROSSOVER_VC) (of_nat (num_entries gp)),
          Scm (SEQUENCER_REG seq_addr SEQ_APM_THRESH_VC) (word_of_int apm),
          Scm (SEQUENCER_REG seq_addr SEQ_APM_THRESH_PREVC) (word_of_int (apm - 1)),
          Scm (SEQUENCER_REG seq_addr SEQ_APM_PARAM) (57 OR push_bit 6 (word_of_int apm))])"

definition qcom_cpufreq_hw_write_lut ::
  "lut_env \<Rightarrow> qcom_cpufreq_soc_data \<Rightarrow> int \<Rightarrow> int \<times> io list" where
  "qcom_cpufreq_hw_write_lut e sdata cpu_count =
     (case osm_rsrc e of
        None \<Rightarrow> (- ENODEV, [])
      | Some start \<Rightarrow>
          (let seq_addr = (ucast start :: u32) + of_nat (reg_osm_sequencer (setup_regs sdata));
               r = qcom_cpufreq_gen_params (genpd e) sdata cpu_count gen_params_init;
               gp = snd r
           in if fst r \<noteq> 0 then (fst r, [])
              else if num_entries gp < 2 then (- EINVAL, [])
              else
                (let st = write_lut_rows sdata (hw_tbl gp) (num_entries gp) ([], lut_scan_init e);
                     ws = fst st; s = snd st
                 in if acc_idx s < SEQ_MEM_ACC_MAX_LEVELS - 1 then (- EINVAL, ws)
                    else
                      (let r1 = (if 0 < acc_vc gp \<and> acc_vc gp \<noteq> U8_MAX
                                 then exec_io (scm_ret e)
                                        [Scm (SEQUENCER_REG seq_addr SEQ_MEM_ACC_CROSSOVER_VC)
                                             (of_nat (num_entries gp + 1))]
                                 else (0, []))
                       in if fst r1 \<noteq> 0 then (fst r1, ws @ snd r1)
                          else
                            (let acc = memacc_derive (acc_vc gp) (acc_val s);
                                 r2 = exec_io (scm_ret e) (write_lut_tail sdata seq_addr gp acc)
                             in (fst r2, ws @ snd r1 @ snd r2))))))"

section \<open>Adaptive clock distribution\<close>

text \<open>
  What reaches the ACD block: a \<open>writel\<close> of a value to a register of the block, a
  \<open>readl_poll_timeout\<close> on a register for the bits of a mask (every 1 us, for 3 us at
  most), and a \<open>udelay\<close>.
\<close>

datatype acd_io = Acd_writel u32 u8 | Acd_poll u8 u32 | Udelay nat

text \<open>
  \<open>readl_poll_timeout\<close> of the kernel's iopoll.h reads the register until the
  condition holds or the time is over, and returns 0 when the value it read last
  satisfies the condition, \<open>-ETIMEDOUT\<close> otherwise. The values that the register
  shows at these reads are given.
\<close>

definition readl_poll_timeout :: "u32 list \<Rightarrow> (u32 \<Rightarrow> bool) \<Rightarrow> int" where
  "readl_poll_timeout samples cond = (if list_ex cond samples then 0 else - ETIMEDOUT)"

text \<open>
  The ACD block answers a poll by the values its status register shows, which may
  depend on everything written to it so far.
\<close>

type_synonym acd_hw = "acd_io list \<Rightarrow> u32 list"

definition acd_writel :: "u32 \<Rightarrow> u8 \<Rightarrow> acd_io list \<Rightarrow> acd_io list" where
  "acd_writel v r h = h @ [Acd_writel v r]"

definition acd_poll :: "acd_hw \<Rightarrow> u8 \<Rightarrow> u32 \<Rightarrow> acd_io list \<Rightarrow> int \<times> acd_io list" where
  "acd_poll hw r m h =
     (let h' = h @ [Acd_poll r m] in (readl_poll_timeout (hw h') (\<lambda>v. v AND m \<noteq> 0), h'))"

definition udelay :: "nat \<Rightarrow> acd_io list \<Rightarrow> acd_io list" where
  "udelay us h = h @ [Udelay us]"

text \<open>\<open>BIT(acd_reg_offset / 4)\<close>, returned as a \<open>u32\<close>.\<close>

definition qcom_cpufreq_acd_regbit :: "u8 \<Rightarrow> u32" where
  "qcom_cpufreq_acd_regbit acd_reg_offset = push_bit (unat acd_reg_offset div 4) 1"

definition qcom_cpufreq_hw_acd_write_autoxfer ::
  "acd_hw \<Rightarrow> qcom_cpufreq_soc_acd_data \<Rightarrow> u32 \<Rightarrow> acd_io list \<Rightarrow> int \<times> acd_io list" where
  "qcom_cpufreq_hw_acd_write_autoxfer hw aregs val h =
     (let h1 = acd_writel val (auto_xfer_cfg_reg aregs) h;
          h2 = acd_writel 0 (auto_xfer_reg aregs) h1;
          h3 = acd_writel 1 (auto_xfer_reg aregs) h2
      in acd_poll hw (auto_xfer_sts_reg aregs) 1 h3)"

definition qcom_cpufreq_hw_acd_write_xfer ::
  "acd_hw \<Rightarrow> qcom_cpufreq_soc_acd_data \<Rightarrow> u8 \<Rightarrow> u32 \<Rightarrow> acd_io list \<Rightarrow> int \<times> acd_io list" where
  "qcom_cpufreq_hw_acd_write_xfer hw aregs reg val h =
     (let h1 = acd_writel val reg h;
          h2 = acd_writel 0 (write_ctl_reg aregs) h1;
          regval = push_bit ACD_WRITE_CTL_SELECT_SHIFT (of_nat (unat reg div 4));
          regval = regval OR ACD_WRITE_CTL_UPDATE_EN;
          h3 = acd_writel regval (write_ctl_reg aregs) h2
      in acd_poll hw (write_sts_reg aregs) (qcom_cpufreq_acd_regbit reg) h3)"

text \<open>
  \<open>qcom_cpufreq_hw_acd_init\<close>; \<open>acd_base\<close> tells whether the \<open>osm-acdN\<close> resource was
  mapped.
\<close>

definition qcom_cpufreq_hw_acd_init ::
  "acd_hw \<Rightarrow> bool \<Rightarrow> qcom_cpufreq_soc_acd_data \<Rightarrow> int \<times> acd_io list" where
  "qcom_cpufreq_hw_acd_init hw acd_base aregs =
     (if \<not> acd_base then (0, [])
      else
        (let h = acd_writel (tl_delay_val aregs) (tl_delay_reg aregs) [];
             h = acd_writel (acd_ctrl_val aregs) (acd_ctrl_reg aregs) h;
             h = acd_writel (softstart_val aregs) (softstart_reg aregs) h;
             h = acd_writel (ext_intf0_val aregs) (ext_intf_reg aregs) h;
             h = acd_writel (auto_xfer_val aregs) (auto_xfer_ctl_reg aregs) h;
             rmask = qcom_cpufreq_acd_regbit (acd_ctrl_reg aregs) OR
                     qcom_cpufreq_acd_regbit (tl_delay_reg aregs) OR
                     qcom_cpufreq_acd_regbit (softstart_reg aregs) OR
                     qcom_cpufreq_acd_regbit (ext_intf_reg aregs);
             r = qcom_cpufreq_hw_acd_write_autoxfer hw aregs rmask h
         in if fst r \<noteq> 0 then r
            else
              (let r = qcom_cpufreq_hw_acd_write_xfer hw aregs (gfmux_cfg_reg aregs) 1 (snd r)
               in if fst r \<noteq> 0 then r
                  else
                    (let r = qcom_cpufreq_hw_acd_write_xfer hw aregs (dcvs_sw_reg aregs) 1 (snd r)
                     in if fst r \<noteq> 0 then r
                        else
                          (let r = qcom_cpufreq_hw_acd_write_xfer hw aregs (dcvs_sw_reg aregs) 0
                                     (snd r)
                           in if fst r \<noteq> 0 then r
                              else
                                (let h = udelay 1 (snd r);
                                     r = qcom_cpufreq_hw_acd_write_xfer hw aregs
                                           (ext_intf_reg aregs) (ext_intf1_val aregs) h
                                 in if fst r \<noteq> 0 then r
                                    else
                                      (let rmask = rmask OR
                                                   qcom_cpufreq_acd_regbit (gfmux_cfg_reg aregs);
                                           h = acd_writel rmask (auto_xfer_cfg_reg aregs) (snd r);
                                           h = udelay OSM_BOOT_TIME_US h
                                       in (0, h))))))))"


section \<open>Throttle notifications\<close>

text \<open>
  The calls the throttle path makes into the kernel, and what they leave behind: whether
  the interrupt line is enabled, and after how many milliseconds the one work item
  \<open>throttle_work\<close> is due when it is queued.
\<close>

datatype lmh_call =
    Update_thermal_pressure "nat list" u64
  | Enable_irq int
  | Disable_irq_nosync int
  | Schedule_delayed_work nat
  | Mod_delayed_work nat
  | Cancel_delayed_work_sync
  | Free_irq int

record throttle =
  irq_enabled :: bool
  poll_after_ms :: "nat option"
  calls :: "lmh_call list"

definition arch_update_thermal_pressure :: "nat list \<Rightarrow> u64 \<Rightarrow> throttle \<Rightarrow> throttle" where
  "arch_update_thermal_pressure cs f t = t\<lparr>calls := calls t @ [Update_thermal_pressure cs f]\<rparr>"

definition enable_irq :: "int \<Rightarrow> throttle \<Rightarrow> throttle" where
  "enable_irq irq t = t\<lparr>irq_enabled := True, calls := calls t @ [Enable_irq irq]\<rparr>"

definition disable_irq_nosync :: "int \<Rightarrow> throttle \<Rightarrow> throttle" where
  "disable_irq_nosync irq t = t\<lparr>irq_enabled := False, calls := calls t @ [Disable_irq_nosync irq]\<rparr>"

text \<open>\<open>schedule_delayed_work\<close> leaves a work item alone that is queued already.\<close>

definition schedule_delayed_work :: "nat \<Rightarrow> throttle \<Rightarrow> throttle" where
  "schedule_delayed_work ms t =
     t\<lparr>poll_after_ms := (case poll_after_ms t of None \<Rightarrow> Some ms | Some d \<Rightarrow> Some d),
       calls := calls t @ [Schedule_delayed_work ms]\<rparr>"

definition mod_delayed_work :: "nat \<Rightarrow> throttle \<Rightarrow> throttle" where
  "mod_delayed_work ms t = t\<lparr>poll_after_ms := Some ms, calls := calls t @ [Mod_delayed_work ms]\<rparr>"

definition cancel_delayed_work_sync :: "throttle \<Rightarrow> throttle" where
  "cancel_delayed_work_sync t = t\<lparr>poll_after_ms := None, calls := calls t @ [Cancel_delayed_work_sync]\<rparr>"

definition free_irq :: "int \<Rightarrow> throttle \<Rightarrow> throttle" where
  "free_irq irq t = t\<lparr>irq_enabled := False, calls := calls t @ [Free_irq irq]\<rparr>"

text \<open>\<open>cpumask_first\<close> on a mask kept in ascending order.\<close>

definition cpumask_first :: "kernel \<Rightarrow> nat list \<Rightarrow> nat" where
  "cpumask_first k cs = (case cs of [] \<Rightarrow> nr_cpu_ids k | c # _ \<Rightarrow> c)"

definition qcom_lmh_get_throttle_freq :: "kernel \<Rightarrow> qcom_cpufreq_data \<Rightarrow> u32" where
  "qcom_lmh_get_throttle_freq k data =
     (let val = readl_relaxed k (base data + reg_current_vote (soc_data data))
      in (val AND 1023) * 19200)"

text \<open>
  The OPP library on the device of a CPU: \<open>-EINVAL\<close> without a device, \<open>-ENODEV\<close>
  without a table, \<open>-ERANGE\<close> without a match.
\<close>

definition dev_pm_opp_find_freq_floor :: "kernel \<Rightarrow> nat option \<Rightarrow> u64 \<Rightarrow> int + dev_pm_opp" where
  "dev_pm_opp_find_freq_floor k dev freq =
     (case dev of
        None \<Rightarrow> Inl (- EINVAL)
      | Some d \<Rightarrow>
          (case opp_tables k d of
             None \<Rightarrow> Inl (- ENODEV)
           | Some tbl \<Rightarrow>
               (case opp_find_freq_floor tbl freq of None \<Rightarrow> Inl (- ERANGE) | Some p \<Rightarrow> Inr p)))"

definition dev_pm_opp_find_freq_ceil :: "kernel \<Rightarrow> nat option \<Rightarrow> u64 \<Rightarrow> int + dev_pm_opp" where
  "dev_pm_opp_find_freq_ceil k dev freq =
     (case dev of
        None \<Rightarrow> Inl (- EINVAL)
      | Some d \<Rightarrow>
          (case opp_tables k d of
             None \<Rightarrow> Inl (- ENODEV)
           | Some tbl \<Rightarrow>
               (case opp_find_freq_ceil tbl freq of None \<Rightarrow> Inl (- ERANGE) | Some p \<Rightarrow> Inr p)))"

text \<open>
  The first half of \<open>qcom_lmh_dcvs_notify\<close>: the throttled frequency in kHz. The
  product \<open>freq * HZ_PER_KHZ\<close> is formed in 32 bits; the library functions set
  \<open>freq_hz\<close> to the rate of the operating point they find.
\<close>

definition lmh_throttled_freq :: "kernel \<Rightarrow> cpufreq_policy \<Rightarrow> u64" where
  "lmh_throttled_freq k policy =
     (let data = driver_data policy;
          dev = cpu_device k (cpumask_first k (cpus policy));
          freq = qcom_lmh_get_throttle_freq k data;
          freq_hz = (ucast (freq * HZ_PER_KHZ) :: u64);
          freq_hz =
            (case dev_pm_opp_find_freq_floor k dev freq_hz of
               Inr p \<Rightarrow> opp_rate p
             | Inl e \<Rightarrow>
                 (if e = - ERANGE
                  then (case dev_pm_opp_find_freq_ceil k dev freq_hz of
                          Inr p \<Rightarrow> opp_rate p
                        | Inl _ \<Rightarrow> freq_hz)
                  else freq_hz))
      in freq_hz div 1000)"

text \<open>
  \<open>qcom_lmh_dcvs_notify\<close>; \<open>data\<close> is the driver data of \<open>data->policy\<close>. The part
  between \<open>mutex_lock\<close> and \<open>mutex_unlock\<close> is one step.
\<close>

definition qcom_lmh_dcvs_notify :: "kernel \<Rightarrow> cpufreq_policy \<Rightarrow> throttle \<Rightarrow> throttle option" where
  "qcom_lmh_dcvs_notify k policy t =
     (let data = driver_data policy;
          c = cpumask_first k (cpus policy);
          throttled_freq = lmh_throttled_freq k policy;
          t1 = arch_update_thermal_pressure (related_cpus policy) throttled_freq t
      in if cancel_throttle data then Some t1
         else
           (case qcom_cpufreq_hw_get k c of
              None \<Rightarrow> None
            | Some requested \<Rightarrow>
                (if ucast requested \<le> throttled_freq
                 then Some (enable_irq (throttle_irq data) t1)
                 else Some (mod_delayed_work 10 t1))))"

text \<open>The work function runs once its work item has left the queue.\<close>

definition qcom_lmh_dcvs_poll :: "kernel \<Rightarrow> cpufreq_policy \<Rightarrow> throttle \<Rightarrow> throttle option" where
  "qcom_lmh_dcvs_poll k policy t = qcom_lmh_dcvs_notify k policy (t\<lparr>poll_after_ms := None\<rparr>)"

definition qcom_lmh_dcvs_handle_irq :: "qcom_cpufreq_data \<Rightarrow> throttle \<Rightarrow> throttle" where
  "qcom_lmh_dcvs_handle_irq c_data t =
     schedule_delayed_work 0 (disable_irq_nosync (throttle_irq c_data) t)"

definition qcom_cpufreq_hw_lmh_exit ::
  "qcom_cpufreq_data \<Rightarrow> throttle \<Rightarrow> qcom_cpufreq_data \<times> throttle" where
  "qcom_cpufreq_hw_lmh_exit data t =
     (if throttle_irq data \<le> 0 then (data, t)
      else (data\<lparr>cancel_throttle := True\<rparr>,
            free_irq (throttle_irq data) (cancel_delayed_work_sync t)))"

text \<open>The three states of the notifier, read off the flag and the interrupt line.\<close>

datatype throttle_mode = IrqArmed | Polling | Cancelled

definition throttle_mode_of :: "qcom_cpufreq_data \<Rightarrow> throttle \<Rightarrow> throttle_mode" where
  "throttle_mode_of data t =
     (if cancel_throttle data then Cancelled
      else if irq_enabled t then IrqArmed
      else Polling)"

section \<open>The SoC tables of the driver\<close>

definition no_setup_regs :: qcom_cpufreq_soc_setup_data where
  "no_setup_regs = \<lparr>reg_osm_sequencer = 0, reg_override = 0, reg_spare = 0, reg_seq1 = 0\<rparr>"

definition no_acd_data :: qcom_cpufreq_soc_acd_data where
  "no_acd_data =
     \<lparr>tl_delay_reg = 0, acd_ctrl_reg = 0, softstart_reg = 0, ext_intf_reg = 0,
      auto_xfer_reg = 0, auto_xfer_cfg_reg = 0, auto_xfer_ctl_reg = 0, auto_xfer_sts_reg = 0,
      dcvs_sw_reg = 0, gfmux_cfg_reg = 0, write_ctl_reg = 0, write_sts_reg = 0,
      tl_delay_val = 0, acd_ctrl_val = 0, softstart_val = 0, ext_intf0_val = 0,
      ext_intf1_val = 0, auto_xfer_val = 0\<rparr>"

definition qcom_soc_data :: qcom_cpufreq_soc_data where
  "qcom_soc_data =
     \<lparr>reg_enable = 0x0, reg_index = 0, reg_freq_lut = 0x110,
      reg_freq_lut_src_mask = GENMASK 31 30, reg_volt_lut = 0x114,
      reg_current_vote = 0x704, reg_perf_state = 0x920, lut_row_size = 32,
      clk_hw_div = 2, uses_tz = True, setup_regs = no_setup_regs, acd_data = no_acd_data\<rparr>"

definition msm8998_acd_data :: qcom_cpufreq_soc_acd_data where
  "msm8998_acd_data =
     \<lparr>tl_delay_reg = 0x8, acd_ctrl_reg = 0x4, softstart_reg = 0x28, ext_intf_reg = 0x30,
      auto_xfer_reg = 0x84, auto_xfer_cfg_reg = 0x80, auto_xfer_ctl_reg = 0x88,
      auto_xfer_sts_reg = 0x8c, dcvs_sw_reg = 0x34, gfmux_cfg_reg = 0x3c,
      write_ctl_reg = 0x90, write_sts_reg = 0x94,
      tl_delay_val = 38417, acd_ctrl_val = 0x2b5ffd, softstart_val = 0x501,
      ext_intf0_val = 0x2cf9ae8, ext_intf1_val = 0x2cf9afe, auto_xfer_val = 0x15\<rparr>"

definition msm8998_soc_data :: qcom_cpufreq_soc_data where
  "msm8998_soc_data =
     \<lparr>reg_enable = 0x4, reg_index = 0x150, reg_freq_lut = 0x154,
      reg_freq_lut_src_mask = GENMASK 27 26, reg_volt_lut = 0x158,
      reg_current_vote = 0, reg_perf_state = 0xf10, lut_row_size = 32,
      clk_hw_div = 1, uses_tz = False,
      setup_regs = \<lparr>reg_osm_sequencer = 0x300, reg_override = 0x15c, reg_spare = 0x164,
                     reg_seq1 = 0x48\<rparr>,
      acd_data = msm8998_acd_data\<rparr>"


section \<open>Concrete platforms\<close>

text \<open>
  An operating point at a rate in MHz and a voltage in mV, with a PLL override and a
  MEM-ACC level in its node, and the surroundings of the table programming for a list
  of operating points and the two thresholds of the voltage-regulation driver: the
  crystal runs at 19.2 MHz, the firmware accepts every write.
\<close>

definition opp_of :: "nat \<Rightarrow> nat \<Rightarrow> u32 \<Rightarrow> dev_pm_opp" where
  "opp_of mhz mv spare =
     \<lparr>opp_rate = of_nat (mhz * 1000000), opp_uV = of_nat (mv * 1000),
      opp_np = Some \<lparr>pll_override = Some 0x20, spare_data = Some spare, pll_div = None\<rparr>\<rparr>"

definition env_of :: "dev_pm_opp list \<Rightarrow> int \<Rightarrow> int \<Rightarrow> lut_env" where
  "env_of ps apm acc =
     \<lparr>osm_rsrc = Some 0x179c0000,
      genpd = \<lparr>attach_genpd_ret = 0, genpd_cpr_vdev = True,
               cpr_data = Some \<lparr>apm_threshold_uV = apm, mem_acc_threshold_uV = acc\<rparr>,
               opp_count = int (length ps), opps = ps, xo_rate = 19200000\<rparr>,
      scm_ret = (\<lambda>a v. 0), acc_val_stack = (\<lambda>i. 0)\<rparr>"

text \<open>
  Five operating points at 300 to 1500 MHz and 500 to 900 mV with the MEM-ACC levels
  1, 1, 2, 2, 3; the APM threshold of 750 mV is reached at corner 3, and there is no
  MEM-ACC threshold.
\<close>

definition five_opps :: "dev_pm_opp list" where
  "five_opps = [opp_of 300 500 1, opp_of 600 600 1, opp_of 900 700 2, opp_of 1200 800 2,
                opp_of 1500 900 3]"

definition five_env :: lut_env where
  "five_env = env_of five_opps 750000 0"

definition five_rows :: "qcom_cpufreq_hw_params list" where
  "five_rows =
     [\<lparr>volt_lut_val = 0x001F4, freq_lut_val = 0x004000F, override_val = 0x20, spare_val = 1\<rparr>,
      \<lparr>volt_lut_val = 0x10258, freq_lut_val = 0x404001F, override_val = 0x20, spare_val = 1\<rparr>,
      \<lparr>volt_lut_val = 0x202BC, freq_lut_val = 0x404002E, override_val = 0x20, spare_val = 2\<rparr>,
      \<lparr>volt_lut_val = 0x30320, freq_lut_val = 0x404003E, override_val = 0x20, spare_val = 2\<rparr>,
      \<lparr>volt_lut_val = 0x40384, freq_lut_val = 0x404004E, override_val = 0x20, spare_val = 3\<rparr>]"

text \<open>The same table with an APM threshold of 950 mV, which no operating point reaches.\<close>

definition apm_unreached_env :: lut_env where
  "apm_unreached_env = env_of five_opps 950000 0"

text \<open>
  The same operating points with the MEM-ACC levels 1, 2, 2, 2, 3 and a MEM-ACC threshold
  of 800 mV, which corner 3 reaches.
\<close>

definition lowered_opps :: "dev_pm_opp list" where
  "lowered_opps = [opp_of 300 500 1, opp_of 600 600 2, opp_of 900 700 2, opp_of 1200 800 2,
                   opp_of 1500 900 3]"

definition lowered_env :: lut_env where
  "lowered_env = env_of lowered_opps 750000 800000"

definition lowered_rows :: "qcom_cpufreq_hw_params list" where
  "lowered_rows =
     [\<lparr>volt_lut_val = 0x001F4, freq_lut_val = 0x004000F, override_val = 0x20, spare_val = 1\<rparr>,
      \<lparr>volt_lut_val = 0x10258, freq_lut_val = 0x404001F, override_val = 0x20, spare_val = 2\<rparr>,
      \<lparr>volt_lut_val = 0x202BC, freq_lut_val = 0x404002E, override_val = 0x20, spare_val = 2\<rparr>,
      \<lparr>volt_lut_val = 0x30320, freq_lut_val = 0x404003E, override_val = 0x20, spare_val = 2\<rparr>,
      \<lparr>volt_lut_val = 0x40384, freq_lut_val = 0x404004E, override_val = 0x20, spare_val = 3\<rparr>]"

text \<open>
  Three operating points whose MEM-ACC level rises at two corners in a row; the APM
  threshold of 550 mV is reached at corner 1.
\<close>

definition adjacent_opps :: "dev_pm_opp list" where
  "adjacent_opps = [opp_of 300 500 1, opp_of 600 600 2, opp_of 900 700 3]"

definition adjacent_env :: lut_env where
  "adjacent_env = env_of adjacent_opps 550000 0"

definition adjacent_rows :: "qcom_cpufreq_hw_params list" where
  "adjacent_rows =
     [\<lparr>volt_lut_val = 0x001F4, freq_lut_val = 0x004000F, override_val = 0x20, spare_val = 1\<rparr>,
      \<lparr>volt_lut_val = 0x10258, freq_lut_val = 0x404001F, override_val = 0x20, spare_val = 2\<rparr>,
      \<lparr>volt_lut_val = 0x202BC, freq_lut_val = 0x404002E, override_val = 0x20, spare_val = 3\<rparr>]"

text \<open>An ACD block that shows every bit of its status registers set at the first read.\<close>

definition acd_ready :: acd_hw where
  "acd_ready h = [- 1]"

text \<open>
  A cluster of four CPUs on the firmware-configured SoC with five rows in its resolved
  table, as \<open>qcom_cpufreq_hw_read_lut\<close> leaves it: the frequencies are multiples of
  19200 kHz, the end marker follows them in an array of 41 zeroed entries, and the
  operating points carry the same rates. The hardware table holds the five rows from
  the crystal source with core count 4 and repeats the last one up to row 39. The
  performance-state register and the current-vote register hold \<open>perf\<close> and
  \<open>vote\<close>; interconnect scaling is enabled and every bandwidth vote is answered with
  \<open>-EINVAL\<close>, while the operating points of the table are updated without error.
\<close>

definition cluster_freq_table :: "cpufreq_frequency_table list" where
  "cluster_freq_table =
     [\<lparr>flags = 0, frequency = 288000\<rparr>, \<lparr>flags = 0, frequency = 595200\<rparr>,
      \<lparr>flags = 0, frequency = 883200\<rparr>, \<lparr>flags = 0, frequency = 1190400\<rparr>,
      \<lparr>flags = 0, frequency = 1497600\<rparr>, \<lparr>flags = 0, frequency = CPUFREQ_TABLE_END\<rparr>] @
     replicate 35 \<lparr>flags = 0, frequency = 0\<rparr>"

definition cluster_data :: "bool \<Rightarrow> qcom_cpufreq_data" where
  "cluster_data cancel =
     \<lparr>base = 0x17d43000, soc_data = qcom_soc_data, throttle_irq = 32,
      cancel_throttle = cancel\<rparr>"

definition cluster_policy :: "bool \<Rightarrow> cpufreq_policy" where
  "cluster_policy cancel =
     \<lparr>cpu = 0, cpus = [0, 1, 2, 3], related_cpus = [0, 1, 2, 3],
      freq_table = cluster_freq_table, cached_resolved_idx = 0,
      fast_switch_possible = False, driver_data = cluster_data cancel\<rparr>"

definition cluster_opps :: "dev_pm_opp list" where
  "cluster_opps =
     map (\<lambda>r. \<lparr>opp_rate = r, opp_uV = 0, opp_np = None\<rparr>)
       [288000000, 595200000, 883200000, 1190400000, 1497600000]"

definition cluster_lut :: "nat \<Rightarrow> u32" where
  "cluster_lut off =
     (if 0x110 \<le> off \<and> off < 0x610 \<and> (off - 0x110) mod 32 = 0
      then [0x4004000F, 0x4004001F, 0x4004002E, 0x4004003E, 0x4004004E] !
             min ((off - 0x110) div 32) 4
      else if 0x114 \<le> off \<and> off < 0x614 \<and> (off - 0x114) mod 32 = 0
      then [500, 600, 700, 800, 900] ! min ((off - 0x114) div 32) 4
      else 0)"

definition cluster_kernel :: "bool \<Rightarrow> u32 \<Rightarrow> u32 \<Rightarrow> kernel" where
  "cluster_kernel cancel perf vote =
     \<lparr>mmio = (\<lambda>a. if a = 0x17d43920 then perf else if a = 0x17d43704 then vote
                  else if 0x17d43000 \<le> a then cluster_lut (a - 0x17d43000) else 0),
      policies = (\<lambda>c. if c < 4 then Some (cluster_policy cancel) else None),
      cpu_device = (\<lambda>c. if c < 8 then Some c else None),
      opp_tables = (\<lambda>d. if d < 4 then Some cluster_opps else None),
      icc_scaling_enabled = True,
      set_opp_ret = (\<lambda>p. - EINVAL),
      opp_votes = [],
      nr_cpu_ids = 8\<rparr>"

definition cluster_read_env :: read_lut_env where
  "cluster_read_env =
     \<lparr>kcalloc_ok = True, of_add_table_ret = 0, opp_add_ret = (\<lambda>f v. 0), adjust_voltage_ret = (\<lambda>f v. 0),
      opp_enable_ret = (\<lambda>f. 0), lut_xo_rate = 19200000, cpu_hw_rate = 150000000\<rparr>"

definition throttle_polling :: throttle where
  "throttle_polling = \<lparr>irq_enabled = False, poll_after_ms = None, calls = []\<rparr>"

section \<open>Predicates on the scan of the table\<close>

text \<open>
  What holds of the locals after the slots below \<open>m\<close> have been visited, for a table
  of \<open>n\<close> real rows: the recorded values form the pairs \<open>(i - 1, i)\<close> of at most two
  corners \<open>i\<close> of real rows, the first one past corner 0.
\<close>

definition scan_inv :: "qcom_cpufreq_hw_params list \<Rightarrow> nat \<Rightarrow> nat \<Rightarrow> lut_scan \<Rightarrow> bool" where
  "scan_inv tbl n m s \<longleftrightarrow>
     length (acc_val s) = 4 \<and>
     (acc_idx s = 0 \<or> acc_idx s = 2 \<or> acc_idx s = 4) \<and>
     (acc_idx s = 0 \<longrightarrow> last_spare s = 1) \<and>
     (n \<le> m \<longrightarrow> spare_val (tbl ! (n - 1)) \<le> last_spare s \<or> 3 \<le> acc_idx s) \<and>
     (2 \<le> acc_idx s \<longrightarrow>
        acc_val s ! 1 = acc_val s ! 0 + 1 \<and> 1 \<le> acc_val s ! 1 \<and>
        acc_val s ! 1 < int m \<and> acc_val s ! 1 < int n) \<and>
     (acc_idx s = 4 \<longrightarrow>
        acc_val s ! 3 = acc_val s ! 2 + 1 \<and> acc_val s ! 1 < acc_val s ! 3 \<and>
        acc_val s ! 3 < int m \<and> acc_val s ! 3 < int n)"

text \<open>The last real row can no longer start a pair.\<close>

definition scan_padded :: "qcom_cpufreq_hw_params list \<Rightarrow> nat \<Rightarrow> lut_scan \<Rightarrow> bool" where
  "scan_padded tbl n s \<longleftrightarrow> spare_val (tbl ! (n - 1)) \<le> last_spare s \<or> 3 \<le> acc_idx s"

section \<open>The ACD hand-over as a sequence\<close>

text \<open>The four operations of an auto-transfer and of a manual transfer.\<close>

definition autoxfer_ops :: "qcom_cpufreq_soc_acd_data \<Rightarrow> u32 \<Rightarrow> acd_io list" where
  "autoxfer_ops aregs val =
     [Acd_writel val (auto_xfer_cfg_reg aregs),
      Acd_writel 0 (auto_xfer_reg aregs),
      Acd_writel 1 (auto_xfer_reg aregs),
      Acd_poll (auto_xfer_sts_reg aregs) 1]"

definition xfer_ops :: "qcom_cpufreq_soc_acd_data \<Rightarrow> u8 \<Rightarrow> u32 \<Rightarrow> acd_io list" where
  "xfer_ops aregs reg val =
     [Acd_writel val reg,
      Acd_writel 0 (write_ctl_reg aregs),
      Acd_writel (push_bit ACD_WRITE_CTL_SELECT_SHIFT (of_nat (unat reg div 4)) OR
                  ACD_WRITE_CTL_UPDATE_EN) (write_ctl_reg aregs),
      Acd_poll (write_sts_reg aregs) (qcom_cpufreq_acd_regbit reg)]"

definition acd_rmask :: "qcom_cpufreq_soc_acd_data \<Rightarrow> u32" where
  "acd_rmask aregs =
     qcom_cpufreq_acd_regbit (acd_ctrl_reg aregs) OR
     qcom_cpufreq_acd_regbit (tl_delay_reg aregs) OR
     qcom_cpufreq_acd_regbit (softstart_reg aregs) OR
     qcom_cpufreq_acd_regbit (ext_intf_reg aregs)"

text \<open>
  The steps up to the final transfer: the five values, the auto-transfer of the four
  registers, the manual transfer of the clock-mux select, the software-DCVS register
  set and cleared, the delay of 1 us, and the manual transfer of the final
  external-interface value.
\<close>

definition acd_sequence_head :: "qcom_cpufreq_soc_acd_data \<Rightarrow> acd_io list" where
  "acd_sequence_head aregs =
     [Acd_writel (tl_delay_val aregs) (tl_delay_reg aregs),
      Acd_writel (acd_ctrl_val aregs) (acd_ctrl_reg aregs),
      Acd_writel (softstart_val aregs) (softstart_reg aregs),
      Acd_writel (ext_intf0_val aregs) (ext_intf_reg aregs),
      Acd_writel (auto_xfer_val aregs) (auto_xfer_ctl_reg aregs)] @
     autoxfer_ops aregs (acd_rmask aregs) @
     xfer_ops aregs (gfmux_cfg_reg aregs) 1 @
     xfer_ops aregs (dcvs_sw_reg aregs) 1 @
     xfer_ops aregs (dcvs_sw_reg aregs) 0 @
     [Udelay 1] @
     xfer_ops aregs (ext_intf_reg aregs) (ext_intf1_val aregs)"

text \<open>
  The sequence as the specification words it: the last transfer is an auto-transfer
  of the mask with the clock-mux-select bit, with its start pulse and its poll.
\<close>

definition acd_sequence_specified :: "qcom_cpufreq_soc_acd_data \<Rightarrow> acd_io list" where
  "acd_sequence_specified aregs =
     acd_sequence_head aregs @
     autoxfer_ops aregs (acd_rmask aregs OR qcom_cpufreq_acd_regbit (gfmux_cfg_reg aregs)) @
     [Udelay OSM_BOOT_TIME_US]"

text \<open>
  The sequence with the last step as a single write of that mask to the
  auto-transfer configuration register.
\<close>

definition acd_sequence_written :: "qcom_cpufreq_soc_acd_data \<Rightarrow> acd_io list" where
  "acd_sequence_written aregs =
     acd_sequence_head aregs @
     [Acd_writel (acd_rmask aregs OR qcom_cpufreq_acd_regbit (gfmux_cfg_reg aregs))
        (auto_xfer_cfg_reg aregs),
      Udelay OSM_BOOT_TIME_US]"

section \<open>Reading the lookup table: proofs\<close>

text \<open>
  The table that \<open>qcom_cpufreq_hw_read_lut\<close> leaves in the policy has
  \<open>LUT_MAX_ENTRIES + 1\<close> entries, and its end marker stands at an index of at most
  \<open>LUT_MAX_ENTRIES\<close>.
\<close>

lemma read_lut_entry_len [simp]:
  "length (read_lut_entry e icc i prev freq volt cc table) = length table"
  by (simp add: read_lut_entry_def)

lemma read_lut_boost_len [simp]:
  "length (read_lut_boost e icc i prev volt table) = length table"
  by (simp add: read_lut_boost_def Let_def)

lemma read_lut_rows_bounds:
  "i \<le> LUT_MAX_ENTRIES \<Longrightarrow>
   fst (read_lut_rows e k d icc i prev table) \<le> LUT_MAX_ENTRIES \<and>
   length (snd (read_lut_rows e k d icc i prev table)) = length table"
proof (induction e k d icc i prev table rule: read_lut_rows.induct)
  case (1 e k drv_data icc i prev_freq table)
  note eq = read_lut_rows.simps [of e k drv_data icc i prev_freq table]
  show ?case
  proof (cases "i < LUT_MAX_ENTRIES")
    case False
    with "1.prems" show ?thesis unfolding eq by simp
  next
    case True
    define freq where "freq = lut_row_freq e k drv_data i"
    define volt where "volt = lut_row_volt k drv_data i"
    define table1 where "table1 = read_lut_entry e icc i prev_freq freq volt
                                    (lut_row_core_count k drv_data i) table"
    show ?thesis
    proof (cases "0 < i \<and> prev_freq = freq")
      case stop: True
      with True show ?thesis
        unfolding eq by (simp add: Let_def freq_def [symmetric] volt_def [symmetric])
    next
      case go: False
      from True have "i + 1 \<le> LUT_MAX_ENTRIES" by simp
      moreover have "length table1 = length table" by (simp add: table1_def)
      moreover note True go
      ultimately show ?thesis
        using "1.IH" [OF True freq_def volt_def table1_def go]
        unfolding eq
        by (simp add: Let_def freq_def [symmetric] volt_def [symmetric] table1_def [symmetric])
    qed
  qed
qed

lemma entry_count_stop:
  assumes "j < length tbl" and "frequency (tbl ! j) = CPUFREQ_TABLE_END"
  shows "entry_count tbl \<le> j"
proof (rule ccontr)
  assume "\<not> entry_count tbl \<le> j"
  then have lt: "j < length (takeWhile (\<lambda>e. frequency e \<noteq> CPUFREQ_TABLE_END) tbl)"
    by (simp add: entry_count_def)
  then have "takeWhile (\<lambda>e. frequency e \<noteq> CPUFREQ_TABLE_END) tbl ! j = tbl ! j"
    by (rule takeWhile_nth)
  moreover from lt have "takeWhile (\<lambda>e. frequency e \<noteq> CPUFREQ_TABLE_END) tbl ! j
      \<in> set (takeWhile (\<lambda>e. frequency e \<noteq> CPUFREQ_TABLE_END) tbl)"
    by simp
  ultimately have "frequency (tbl ! j) \<noteq> CPUFREQ_TABLE_END"
    by (auto dest: set_takeWhileD)
  with assms(2) show False by simp
qed

lemma read_lut_table:
  assumes "qcom_cpufreq_hw_read_lut e k policy = (0, icc, policy')"
  shows "length (freq_table policy') = LUT_MAX_ENTRIES + 1 \<and>
         entry_count (freq_table policy') \<le> LUT_MAX_ENTRIES \<and>
         driver_data policy' = driver_data policy"
proof -
  define p1 where "p1 = (if of_add_table_ret e = 0 then policy
                         else policy\<lparr>fast_switch_possible := True\<rparr>)"
  define r where "r = read_lut_rows e k (driver_data p1) (of_add_table_ret e = 0) 0 0
                        (replicate (LUT_MAX_ENTRIES + 1) \<lparr>flags = 0, frequency = 0\<rparr>)"
  from read_lut_rows_bounds [of 0 e k "driver_data p1" "of_add_table_ret e = 0" 0
      "replicate (LUT_MAX_ENTRIES + 1) \<lparr>flags = 0, frequency = 0\<rparr>"]
  have b: "fst r \<le> LUT_MAX_ENTRIES" "length (snd r) = LUT_MAX_ENTRIES + 1"
    by (simp_all add: r_def)
  from assms have p': "policy' = p1\<lparr>freq_table :=
      (snd r)[fst r := (snd r ! fst r)\<lparr>frequency := CPUFREQ_TABLE_END\<rparr>]\<rparr>"
    by (auto simp: qcom_cpufreq_hw_read_lut_def Let_def r_def p1_def ENOMEM_def
        split: if_splits)
  have "entry_count (freq_table policy') \<le> fst r"
    using b by (intro entry_count_stop) (simp_all add: p')
  with b show ?thesis by (simp add: p' p1_def)
qed

text \<open>The table of the cluster is the one read from its registers.\<close>

lemma ffs_845: "ffs 0xC0000000 = 31"
  by code_simp

lemma genmask_845: "reg_freq_lut_src_mask qcom_soc_data = 0xC0000000"
  by (simp add: qcom_soc_data_def GENMASK_def mask_eq_exp_minus_1)

lemma cluster_soc: "soc_data (cluster_data c) = qcom_soc_data" "base (cluster_data c) = 0x17d43000"
  by (simp_all add: cluster_data_def)

lemma soc_845: "reg_freq_lut qcom_soc_data = 0x110" "reg_volt_lut qcom_soc_data = 0x114"
  "lut_row_size qcom_soc_data = 32"
  by (simp_all add: qcom_soc_data_def)

lemma replicate_unroll: "replicate (numeral n) x = x # replicate (pred_numeral n) x"
  by (simp add: numeral_eq_Suc)

lemma six: "i < 6 \<Longrightarrow> i = 0 \<or> i = 1 \<or> i = 2 \<or> i = 3 \<or> i = 4 \<or> i = (5 :: nat)"
  by arith

lemma cluster_row_freq_at:
  "i < 6 \<Longrightarrow> lut_row_freq cluster_read_env (cluster_kernel c p v) (cluster_data c) i =
     [288000, 595200, 883200, 1190400, 1497600, 1497600] ! i"
  by (drule six, elim disjE)
    (simp_all add: lut_row_freq_def Let_def cluster_soc soc_845 ffs_845 genmask_845
      cluster_kernel_def cluster_lut_def readl_relaxed_def cluster_read_env_def
      FIELD_GET_def GENMASK_def mask_eq_exp_minus_1)

lemma cluster_row_core_count:
  "i < 6 \<Longrightarrow> lut_row_core_count (cluster_kernel c p v) (cluster_data c) i = 4"
  by (drule six, elim disjE)
    (simp_all add: lut_row_core_count_def Let_def cluster_soc soc_845
      cluster_kernel_def cluster_lut_def readl_relaxed_def
      FIELD_GET_def GENMASK_def mask_eq_exp_minus_1)

lemma cluster_row_volt:
  "i < 6 \<Longrightarrow> lut_row_volt (cluster_kernel c p v) (cluster_data c) i =
     [500000, 600000, 700000, 800000, 900000, 900000] ! i"
  by (drule six, elim disjE)
    (simp_all add: lut_row_volt_def Let_def cluster_soc soc_845
      cluster_kernel_def cluster_lut_def readl_relaxed_def
      FIELD_GET_def GENMASK_def mask_eq_exp_minus_1)

lemma cluster_update_opp: "qcom_cpufreq_update_opp cluster_read_env icc f v = 0"
  by (simp add: qcom_cpufreq_update_opp_def cluster_read_env_def Let_def)

lemma cluster_read_rows:
  "read_lut_rows cluster_read_env (cluster_kernel c p v) (cluster_data c) True 0 0
     (replicate 41 \<lparr>flags = 0, frequency = 0\<rparr>) =
   (5, [\<lparr>flags = 0, frequency = 288000\<rparr>, \<lparr>flags = 0, frequency = 595200\<rparr>,
        \<lparr>flags = 0, frequency = 883200\<rparr>, \<lparr>flags = 0, frequency = 1190400\<rparr>,
        \<lparr>flags = 0, frequency = 1497600\<rparr>] @ replicate 36 \<lparr>flags = 0, frequency = 0\<rparr>)"
  by (simp add: read_lut_rows.simps Let_def cluster_row_freq_at cluster_row_volt
      cluster_row_core_count cluster_update_opp read_lut_entry_def read_lut_boost_def
      LUT_MAX_ENTRIES_def LUT_TURBO_IND_def CPUFREQ_ENTRY_INVALID_def replicate_unroll)

lemma cluster_read_lut:
  "qcom_cpufreq_hw_read_lut cluster_read_env (cluster_kernel c p v)
     ((cluster_policy c)\<lparr>freq_table := []\<rparr>) = (0, True, cluster_policy c)"
proof -
  have env: "of_add_table_ret cluster_read_env = 0" "kcalloc_ok cluster_read_env"
    by (simp_all add: cluster_read_env_def)
  have d: "driver_data ((cluster_policy c)\<lparr>freq_table := []\<rparr>) = cluster_data c"
    by (simp add: cluster_policy_def)
  show ?thesis
    by (simp add: qcom_cpufreq_hw_read_lut_def Let_def env d cluster_read_rows
        LUT_MAX_ENTRIES_def)
      (simp add: cluster_policy_def cluster_freq_table_def replicate_unroll)
qed

section \<open>Runtime control: the performance-state register\<close>

lemma set_bw_mmio: "mmio (snd (qcom_cpufreq_set_bw k policy f)) = mmio k"
  by (simp add: qcom_cpufreq_set_bw_def dev_pm_opp_set_opp_def Let_def
      split: option.splits sum.splits)

lemma set_bw_policies: "policies (snd (qcom_cpufreq_set_bw k policy f)) = policies k"
  by (simp add: qcom_cpufreq_set_bw_def dev_pm_opp_set_opp_def Let_def
      split: option.splits sum.splits)

lemma target_index_Some:
  assumes "unat index < length (freq_table policy)"
  shows "\<exists>k'. qcom_cpufreq_hw_target_index k policy index = Some (0, k') \<and>
           policies k' = policies k \<and>
           mmio k' = (mmio k)(base (driver_data policy) +
                        reg_perf_state (soc_data (driver_data policy)) := index)"
  using assms
  by (simp add: qcom_cpufreq_hw_target_index_def freq_table_at_def Let_def
      set_bw_mmio set_bw_policies writel_relaxed_def)

lemma entry_count_le: "entry_count tbl \<le> length tbl"
  by (simp add: entry_count_def length_takeWhile_le)

lemma min_39: "unat i < 40 \<Longrightarrow> min i (39 :: u32) = i"
  by (simp add: min_def word_le_nat_alt)

lemma cluster_len: "length cluster_freq_table = 41"
  by (simp add: cluster_freq_table_def)

lemma cluster_entry_count: "entry_count cluster_freq_table = 5"
  by (simp add: entry_count_def cluster_freq_table_def CPUFREQ_TABLE_END_def)

text \<open>
  Claim C6. For every index \<open>i\<close> below the entry count of the resolved table (which
  is at most \<open>LUT_MAX_ENTRIES\<close>), \<open>qcom_cpufreq_hw_get\<close> called on the state that
  \<open>qcom_cpufreq_hw_target_index\<close> leaves, with no other write to the
  performance-state register in between, returns the frequency of row \<open>i\<close> of the
  policy's frequency table.
\<close>

theorem get_after_target_index:
  assumes pol: "cpufreq_cpu_get_raw k c = Some policy"
    and i: "unat i < entry_count (freq_table policy)"
    and n: "entry_count (freq_table policy) \<le> LUT_MAX_ENTRIES"
    and set: "qcom_cpufreq_hw_target_index k policy i = Some (r, k')"
  shows "qcom_cpufreq_hw_get k' c = Some (frequency (freq_table policy ! unat i))"
proof -
  have len: "unat i < length (freq_table policy)"
    using i entry_count_le [of "freq_table policy"] by simp
  from target_index_Some [OF len, of k] set
  have k': "policies k' = policies k"
    "mmio k' = (mmio k)(base (driver_data policy) +
                  reg_perf_state (soc_data (driver_data policy)) := i)"
    by auto
  have "unat i < 40" using i n by (simp add: LUT_MAX_ENTRIES_def)
  then have "min i (39 :: u32) = i" by (rule min_39)
  then show ?thesis
    using pol len k'
    by (simp add: qcom_cpufreq_hw_get_def cpufreq_cpu_get_raw_def readl_relaxed_def
        freq_table_at_def Let_def LUT_MAX_ENTRIES_def)
qed

theorem get_after_target_index_witness:
  "qcom_cpufreq_hw_read_lut cluster_read_env (cluster_kernel False 0 0)
     ((cluster_policy False)\<lparr>freq_table := []\<rparr>) = (0, True, cluster_policy False) \<and>
   cpufreq_cpu_get_raw (cluster_kernel False 0 0) 0 = Some (cluster_policy False) \<and>
   unat (4 :: u32) < entry_count (freq_table (cluster_policy False)) \<and>
   entry_count (freq_table (cluster_policy False)) \<le> LUT_MAX_ENTRIES \<and>
   (\<exists>k'. qcom_cpufreq_hw_target_index (cluster_kernel False 0 0) (cluster_policy False) 4 =
            Some (0, k') \<and>
         qcom_cpufreq_hw_get k' 0 = Some 1497600)"
proof -
  have pol: "cpufreq_cpu_get_raw (cluster_kernel False 0 0) 0 = Some (cluster_policy False)"
    by (simp add: cpufreq_cpu_get_raw_def cluster_kernel_def)
  have i: "unat (4 :: u32) < entry_count (freq_table (cluster_policy False))"
    by (simp add: cluster_policy_def cluster_entry_count)
  note rd = cluster_read_lut [of False 0 0]
  from read_lut_table [OF rd]
  have n: "entry_count (freq_table (cluster_policy False)) \<le> LUT_MAX_ENTRIES"
    by simp
  have len: "unat (4 :: u32) < length (freq_table (cluster_policy False))"
    by (simp add: cluster_policy_def cluster_len)
  from target_index_Some [OF len, of "cluster_kernel False 0 0"]
  obtain k' where k': "qcom_cpufreq_hw_target_index (cluster_kernel False 0 0)
      (cluster_policy False) 4 = Some (0, k')"
    by blast
  have "freq_table (cluster_policy False) ! unat (4 :: u32) = \<lparr>flags = 0, frequency = 1497600\<rparr>"
    by (simp add: cluster_policy_def cluster_freq_table_def)
  with get_after_target_index [OF pol i n k']
  have "qcom_cpufreq_hw_get k' 0 = Some 1497600" by simp
  with rd pol i n k' show ?thesis by blast
qed

text \<open>
  Claim C9. For an index inside the policy's frequency table,
  \<open>qcom_cpufreq_hw_target_index\<close> returns 0 and leaves the index in the
  performance-state register, whatever the kernel state is: whether interconnect
  scaling is enabled, and whatever the bandwidth vote answers.
\<close>

theorem target_index_returns_zero:
  assumes "unat index < length (freq_table policy)"
  shows "\<exists>k'. qcom_cpufreq_hw_target_index k policy index = Some (0, k') \<and>
           readl_relaxed k' (base (driver_data policy) +
              reg_perf_state (soc_data (driver_data policy))) = index"
  using target_index_Some [OF assms, of k] by (auto simp: readl_relaxed_def)

text \<open>
  On the cluster with interconnect scaling enabled the vote for row 4 fails with
  \<open>-EINVAL\<close>, and the index is set all the same.
\<close>

theorem target_index_returns_zero_witness:
  "unat (4 :: u32) < length (freq_table (cluster_policy False)) \<and>
   icc_scaling_enabled (cluster_kernel False 0 0) \<and>
   fst (qcom_cpufreq_set_bw (cluster_kernel False 0 0) (cluster_policy False) 1497600) = - EINVAL \<and>
   (\<exists>k'. qcom_cpufreq_hw_target_index (cluster_kernel False 0 0) (cluster_policy False) 4 =
            Some (0, k') \<and>
         readl_relaxed k' (base (driver_data (cluster_policy False)) +
            reg_perf_state (soc_data (driver_data (cluster_policy False)))) = 4)"
proof -
  have len: "unat (4 :: u32) < length (freq_table (cluster_policy False))"
    by (simp add: cluster_policy_def cluster_len)
  have icc: "icc_scaling_enabled (cluster_kernel False 0 0)"
    by (simp add: cluster_kernel_def)
  have bw: "fst (qcom_cpufreq_set_bw (cluster_kernel False 0 0) (cluster_policy False) 1497600)
      = - EINVAL"
    by (simp add: qcom_cpufreq_set_bw_def cluster_kernel_def cluster_policy_def Let_def
        dev_pm_opp_find_freq_exact_def cluster_opps_def dev_pm_opp_set_opp_def)
  from len icc bw target_index_returns_zero [OF len, of "cluster_kernel False 0 0"]
  show ?thesis by blast
qed

text \<open>
  Claim C10. \<open>qcom_cpufreq_hw_get\<close> returns 0 for a CPU without a policy. For a CPU
  with a policy whose frequency table has \<open>LUT_MAX_ENTRIES + 1\<close> entries, the index it
  looks up is the register value cut to 39, which lies inside the table, and the
  function returns the frequency of that row.
\<close>

theorem hw_get_total:
  "(cpufreq_cpu_get_raw k c = None \<longrightarrow> qcom_cpufreq_hw_get k c = Some 0) \<and>
   (\<forall>policy. cpufreq_cpu_get_raw k c = Some policy \<and>
        length (freq_table policy) = LUT_MAX_ENTRIES + 1 \<longrightarrow>
      (let index = min (readl_relaxed k (base (driver_data policy) +
                          reg_perf_state (soc_data (driver_data policy)))) 39
       in unat index \<le> 39 \<and> unat index < length (freq_table policy) \<and>
          qcom_cpufreq_hw_get k c = Some (frequency (freq_table policy ! unat index))))"
proof (intro conjI allI impI)
  assume "cpufreq_cpu_get_raw k c = None"
  then show "qcom_cpufreq_hw_get k c = Some 0"
    by (simp add: qcom_cpufreq_hw_get_def)
next
  fix policy
  assume a: "cpufreq_cpu_get_raw k c = Some policy \<and>
             length (freq_table policy) = LUT_MAX_ENTRIES + 1"
  define x where "x = readl_relaxed k (base (driver_data policy) +
                          reg_perf_state (soc_data (driver_data policy)))"
  have le: "unat (min x (39 :: u32)) \<le> 39"
    by (simp add: min_def word_le_nat_alt)
  then have lt: "unat (min x (39 :: u32)) < length (freq_table policy)"
    using a by (simp add: LUT_MAX_ENTRIES_def)
  have "qcom_cpufreq_hw_get k c = Some (frequency (freq_table policy ! unat (min x 39)))"
    using a lt
    by (simp add: qcom_cpufreq_hw_get_def Let_def freq_table_at_def LUT_MAX_ENTRIES_def
        x_def [symmetric])
  with le lt
  show "let index = min (readl_relaxed k (base (driver_data policy) +
                          reg_perf_state (soc_data (driver_data policy)))) 39
       in unat index \<le> 39 \<and> unat index < length (freq_table policy) \<and>
          qcom_cpufreq_hw_get k c = Some (frequency (freq_table policy ! unat index))"
    by (simp add: Let_def x_def)
qed

text \<open>
  On the cluster, whose table is the one \<open>qcom_cpufreq_hw_read_lut\<close> builds, CPU 5
  has no policy and reads as 0; with 100 in the register, CPU 0 reads the frequency of
  row 39.
\<close>

theorem hw_get_total_witness:
  "qcom_cpufreq_hw_read_lut cluster_read_env (cluster_kernel False 100 0)
     ((cluster_policy False)\<lparr>freq_table := []\<rparr>) = (0, True, cluster_policy False) \<and>
   cpufreq_cpu_get_raw (cluster_kernel False 100 0) 5 = None \<and>
   qcom_cpufreq_hw_get (cluster_kernel False 100 0) 5 = Some 0 \<and>
   cpufreq_cpu_get_raw (cluster_kernel False 100 0) 0 = Some (cluster_policy False) \<and>
   length (freq_table (cluster_policy False)) = LUT_MAX_ENTRIES + 1 \<and>
   readl_relaxed (cluster_kernel False 100 0) (base (driver_data (cluster_policy False)) +
       reg_perf_state (soc_data (driver_data (cluster_policy False)))) = 100 \<and>
   qcom_cpufreq_hw_get (cluster_kernel False 100 0) 0 =
     Some (frequency (freq_table (cluster_policy False) ! 39))"
proof -
  have none: "cpufreq_cpu_get_raw (cluster_kernel False 100 0) 5 = None"
    by (simp add: cpufreq_cpu_get_raw_def cluster_kernel_def)
  have pol: "cpufreq_cpu_get_raw (cluster_kernel False 100 0) 0 = Some (cluster_policy False)"
    by (simp add: cpufreq_cpu_get_raw_def cluster_kernel_def)
  note rd = cluster_read_lut [of False 100 0]
  from read_lut_table [OF rd]
  have len: "length (freq_table (cluster_policy False)) = LUT_MAX_ENTRIES + 1"
    by simp
  have reg: "readl_relaxed (cluster_kernel False 100 0)
       (base (driver_data (cluster_policy False)) +
        reg_perf_state (soc_data (driver_data (cluster_policy False)))) = 100"
    by (simp add: readl_relaxed_def cluster_kernel_def cluster_policy_def cluster_data_def
        qcom_soc_data_def)
  have m: "min (100 :: u32) 39 = 39" by simp
  from hw_get_total [of "cluster_kernel False 100 0" 5] none
  have g5: "qcom_cpufreq_hw_get (cluster_kernel False 100 0) 5 = Some 0" by blast
  from hw_get_total [of "cluster_kernel False 100 0" 0] pol len
  have "let index = min (readl_relaxed (cluster_kernel False 100 0)
                      (base (driver_data (cluster_policy False)) +
                       reg_perf_state (soc_data (driver_data (cluster_policy False))))) 39
        in unat index \<le> 39 \<and> unat index < length (freq_table (cluster_policy False)) \<and>
           qcom_cpufreq_hw_get (cluster_kernel False 100 0) 0 =
             Some (frequency (freq_table (cluster_policy False) ! unat index))"
    by blast
  then have g0: "qcom_cpufreq_hw_get (cluster_kernel False 100 0) 0 =
     Some (frequency (freq_table (cluster_policy False) ! 39))"
    unfolding reg m Let_def by simp
  from rd none g5 pol len reg g0 show ?thesis by blast
qed

section \<open>Programming the lookup table: proofs\<close>


lemma fst_fold_rows:
  "fst (fold (write_lut_row sdata tbl n) is st) =
     fst st @ concat (map (\<lambda>i. lut_slot_writes sdata (lut_entry tbl n i) i) is)"
  by (induction "is" arbitrary: st) (simp_all add: write_lut_row_def Let_def)

lemma snd_fold_rows:
  "snd (fold (write_lut_row sdata tbl n) is st) =
     fold (\<lambda>i. lut_scan_step (lut_entry tbl n i) i) is (snd st)"
  by (induction "is" arbitrary: st) (simp_all add: write_lut_row_def Let_def)

lemma take_drop_concat_upt:
  assumes len: "\<And>j. length (f j) = k" and i: "i < m"
  shows "take k (drop (k * i) (concat (map f [0..<m]))) = f i"
  using i
proof (induction m)
  case 0
  then show ?case by simp
next
  case (Suc m)
  have l: "length (concat (map f [0..<m])) = k * m"
    by (induction m) (simp_all add: len)
  show ?case
  proof (cases "i < m")
    case True
    then have "Suc i \<le> m" by simp
    then have "k * Suc i \<le> k * m" by (rule mult_le_mono2)
    then have "k * i + k \<le> k * m" by simp
    with Suc.IH [OF True] l show ?thesis
      by (simp add: take_drop)
  next
    case False
    with Suc.prems have "i = m" by simp
    with l len show ?thesis by simp
  qed
qed


lemma slot_len: "length (lut_slot_writes sdata entry i) = 5"
  by (simp add: lut_slot_writes_def Let_def)

lemma rows_slot:
  assumes "i < LUT_MAX_ENTRIES"
  shows "take 5 (drop (5 * i) (fst (write_lut_rows sdata tbl n ([], s)))) =
           lut_slot_writes sdata (lut_entry tbl n i) i"
  unfolding write_lut_rows_def fst_fold_rows
  using take_drop_concat_upt [where f = "\<lambda>i. lut_slot_writes sdata (lut_entry tbl n i) i"
      and k = 5 and i = i and m = LUT_MAX_ENTRIES] assms
  by (simp add: slot_len)

lemma len4:
  assumes "length xs = 4"
  shows "\<exists>a b c d. xs = [a, b, c, d]"
proof -
  from assms have "length xs = Suc (Suc (Suc (Suc 0)))" by simp
  then show ?thesis by (auto simp: length_Suc_conv)
qed

lemma scan_inv_keep:
  assumes inv: "scan_inv tbl n m s" and n: "0 < n"
    and skip: "spare_val (lut_entry tbl n m) \<le> last_spare s \<or> 3 \<le> acc_idx s"
  shows "scan_inv tbl n (Suc m) s"
proof -
  have pad: "spare_val (tbl ! (n - 1)) \<le> last_spare s \<or> 3 \<le> acc_idx s" if "n \<le> Suc m"
  proof (cases "m < n")
    case True
    with that have "m = n - 1" by simp
    with True skip show ?thesis by (simp add: lut_entry_def)
  next
    case False
    with skip show ?thesis by (simp add: lut_entry_def)
  qed
  from inv pad show ?thesis
    unfolding scan_inv_def by auto
qed

lemma scan_inv_record:
  assumes inv: "scan_inv tbl n m s" and n: "0 < n" and first: "spare_val (tbl ! 0) \<le> 1"
    and rec: "\<not> (spare_val (lut_entry tbl n m) \<le> last_spare s \<or> 3 \<le> acc_idx s)"
  shows "scan_inv tbl n (Suc m)
           (s\<lparr>last_spare := spare_val (lut_entry tbl n m),
              acc_val := (acc_val s)[acc_idx s := int m - 1, acc_idx s + 1 := int m],
              acc_idx := acc_idx s + 2\<rparr>)"
proof -
  from inv have "length (acc_val s) = 4" by (simp add: scan_inv_def)
  then obtain a0 a1 a2 a3 where a: "acc_val s = [a0, a1, a2, a3]"
    using len4 by blast
  from rec inv have mn: "m < n"
    by (cases "m < n") (auto simp: scan_inv_def lut_entry_def)
  from rec inv have idx: "acc_idx s = 0 \<or> acc_idx s = 2"
    by (auto simp: scan_inv_def)
  have m0: "m \<noteq> 0"
  proof
    assume z: "m = 0"
    with inv have "acc_idx s = 0" "last_spare s = 1"
      by (auto simp: scan_inv_def)
    with rec z mn first show False by (simp add: lut_entry_def)
  qed
  have pad: "lut_entry tbl n m = tbl ! (n - 1)" if "n \<le> Suc m"
  proof -
    from that mn have "m = n - 1" by simp
    with mn show ?thesis by (simp add: lut_entry_def)
  qed
  from idx show ?thesis
  proof
    assume "acc_idx s = 0"
    with a mn m0 pad show ?thesis
      unfolding scan_inv_def by simp
  next
    assume "acc_idx s = 2"
    with inv a mn m0 pad show ?thesis
      unfolding scan_inv_def by simp
  qed
qed

lemma scan_inv_step:
  assumes inv: "scan_inv tbl n m s" and n: "0 < n" and first: "spare_val (tbl ! 0) \<le> 1"
  shows "scan_inv tbl n (Suc m) (lut_scan_step (lut_entry tbl n m) m s)"
proof (cases "spare_val (lut_entry tbl n m) \<le> last_spare s \<or> 3 \<le> acc_idx s")
  case True
  then have "lut_scan_step (lut_entry tbl n m) m s = s"
    by (simp add: lut_scan_step_def SEQ_MEM_ACC_MAX_LEVELS_def)
  with scan_inv_keep [OF inv n True] show ?thesis by simp
next
  case False
  then have "lut_scan_step (lut_entry tbl n m) m s =
        s\<lparr>last_spare := spare_val (lut_entry tbl n m),
          acc_val := (acc_val s)[acc_idx s := int m - 1, acc_idx s + 1 := int m],
          acc_idx := acc_idx s + 2\<rparr>"
    by (simp add: lut_scan_step_def SEQ_MEM_ACC_MAX_LEVELS_def)
  with scan_inv_record [OF inv n first False] show ?thesis by simp
qed

lemma scan_inv_fold:
  assumes n: "0 < n" and first: "spare_val (tbl ! 0) \<le> 1" and inv: "scan_inv tbl n 0 s"
  shows "scan_inv tbl n m (fold (\<lambda>i. lut_scan_step (lut_entry tbl n i) i) [0..<m] s)"
proof (induction m)
  case 0
  with inv show ?case by simp
next
  case (Suc m)
  from scan_inv_step [OF Suc.IH n first] show ?case by simp
qed

lemma scan_inv_init: "0 < n \<Longrightarrow> scan_inv tbl n 0 (lut_scan_init e)"
  by (simp add: scan_inv_def lut_scan_init_def SEQ_MEM_ACC_MAX_LEVELS_def)

lemma entry_len:
  "gen_params_entry g soc cc apm acc i p out = Inr out' \<Longrightarrow>
     length (hw_tbl out') = Suc (length (hw_tbl out))"
  by (auto simp: gen_params_entry_def Let_def split: option.splits if_splits)

lemma loop_len:
  "gen_params_loop g soc cc apm acc cnt i rate out = Inr (j, out') \<Longrightarrow>
   length (hw_tbl out) = i \<Longrightarrow> length (hw_tbl out') = j"
proof (induction g soc cc apm acc cnt i rate out rule: gen_params_loop.induct)
  case (1 g soc cc apm acc cnt i rate out)
  note eq = gen_params_loop.simps [of g soc cc apm acc cnt i rate out]
  show ?case
  proof (cases "int i \<le> cnt")
    case False
    with "1.prems" show ?thesis by (simp add: eq)
  next
    case True
    show ?thesis
    proof (cases "opp_find_freq_ceil (opps g) rate")
      case None
      with True "1.prems" show ?thesis by (simp add: eq)
    next
      case (Some p)
      show ?thesis
      proof (cases "gen_params_entry g soc cc apm acc i p out")
        case (Inl e)
        with True Some "1.prems" show ?thesis by (simp add: eq)
      next
        case (Inr out1)
        from entry_len [OF Inr] "1.prems"(2) have "length (hw_tbl out1) = i + 1" by simp
        moreover from True Some Inr "1.prems"(1)
        have "gen_params_loop g soc cc apm acc cnt (i + 1) (opp_rate p + 1) out1 = Inr (j, out')"
          by (simp add: eq)
        ultimately show ?thesis
          using "1.IH" [OF True Some Inr] by simp
      qed
    qed
  qed
qed

lemma gen_params_rows:
  assumes "qcom_cpufreq_gen_params g soc cc gen_params_init = (0, gp)"
    and "0 < num_entries gp"
  shows "num_entries gp \<le> length (hw_tbl gp)"
  using assms
  by (auto simp: qcom_cpufreq_gen_params_def Let_def gen_params_init_def EINVAL_def ENODATA_def
      split: option.splits if_splits sum.splits prod.splits dest!: loop_len)

lemma rows_len: "length (fst (write_lut_rows sdata tbl n ([], s))) = 200"
proof -
  have "length (concat (map (\<lambda>i. lut_slot_writes sdata (lut_entry tbl n i) i) [0..<m])) = 5 * m"
    for m by (induction m) (simp_all add: slot_len)
  then show ?thesis
    by (simp add: write_lut_rows_def fst_fold_rows LUT_MAX_ENTRIES_def)
qed

lemma write_lut_prefix:
  assumes rs: "osm_rsrc e = Some start"
    and gp: "qcom_cpufreq_gen_params (genpd e) sdata cc gen_params_init = (0, gp)"
    and n: "2 \<le> num_entries gp"
  shows "\<exists>rest. snd (qcom_cpufreq_hw_write_lut e sdata cc) =
           fst (write_lut_rows sdata (hw_tbl gp) (num_entries gp) ([], lut_scan_init e)) @ rest"
  using rs gp n
  by (simp add: qcom_cpufreq_hw_write_lut_def Let_def)

text \<open>
  Claim C4. When the rows are generated and there are at least two, every slot \<open>i\<close>
  from \<open>num_entries\<close> to 39 receives, after its own index, the four values of the last
  real row \<open>hw_tbl[num_entries - 1]\<close> in the voltage, frequency, override and spare
  arrays at \<open>i * lut_row_size\<close>; that row is a row of the generated table. The writes
  of slot \<open>i\<close> are the five from position \<open>5 * i\<close> on.
\<close>

theorem lut_padding_rows:
  assumes rs: "osm_rsrc e = Some start"
    and gp: "qcom_cpufreq_gen_params (genpd e) sdata cpu_count gen_params_init = (0, gp)"
    and n: "2 \<le> num_entries gp"
    and i: "num_entries gp \<le> i" "i < LUT_MAX_ENTRIES"
  shows "num_entries gp - 1 < length (hw_tbl gp) \<and>
         take 5 (drop (5 * i) (snd (qcom_cpufreq_hw_write_lut e sdata cpu_count))) =
           (let last_row = hw_tbl gp ! (num_entries gp - 1); pos = i * lut_row_size sdata in
            [Writel (reg_index sdata + pos) (of_nat i),
             Writel (reg_volt_lut sdata + pos) (volt_lut_val last_row),
             Writel (reg_freq_lut sdata + pos) (freq_lut_val last_row),
             Writel (reg_override (setup_regs sdata) + pos) (override_val last_row),
             Writel (reg_spare (setup_regs sdata) + pos) (spare_val last_row)])"
proof
  from gen_params_rows [OF gp] n show "num_entries gp - 1 < length (hw_tbl gp)" by simp
next
  define ws where "ws = fst (write_lut_rows sdata (hw_tbl gp) (num_entries gp) ([], lut_scan_init e))"
  from write_lut_prefix [OF rs gp n] obtain rest
    where log: "snd (qcom_cpufreq_hw_write_lut e sdata cpu_count) = ws @ rest"
    unfolding ws_def by blast
  have len: "length ws = 200" unfolding ws_def by (rule rows_len)
  from i have "5 * i + 5 \<le> 200" by (simp add: LUT_MAX_ENTRIES_def)
  with len have "take 5 (drop (5 * i) (ws @ rest)) = take 5 (drop (5 * i) ws)"
    by simp
  also have "\<dots> = lut_slot_writes sdata (lut_entry (hw_tbl gp) (num_entries gp) i) i"
    unfolding ws_def using i(2) by (rule rows_slot)
  also have "lut_entry (hw_tbl gp) (num_entries gp) i = hw_tbl gp ! (num_entries gp - 1)"
    using i(1) by (simp add: lut_entry_def)
  finally show "take 5 (drop (5 * i) (snd (qcom_cpufreq_hw_write_lut e sdata cpu_count))) =
           (let last_row = hw_tbl gp ! (num_entries gp - 1); pos = i * lut_row_size sdata in
            [Writel (reg_index sdata + pos) (of_nat i),
             Writel (reg_volt_lut sdata + pos) (volt_lut_val last_row),
             Writel (reg_freq_lut sdata + pos) (freq_lut_val last_row),
             Writel (reg_override (setup_regs sdata) + pos) (override_val last_row),
             Writel (reg_spare (setup_regs sdata) + pos) (spare_val last_row)])"
    unfolding log by (simp add: lut_slot_writes_def Let_def)
qed

lemma ffs_8998: "ffs (reg_freq_lut_src_mask msm8998_soc_data) = 27"
  by (simp add: msm8998_soc_data_def) code_simp

lemmas entry_defs = gen_params_entry_def opp_of_def env_of_def Let_def FIELD_PREP_def GENMASK_def
  opp_find_freq_ceil_def mask_eq_exp_minus_1 ffs_8998

lemma five_loop:
  "gen_params_loop (genpd five_env) msm8998_soc_data 4 750000 2147483647 5 0 1000
     \<lparr>hw_tbl = [], apm_vc = - 1, acc_vc = 255, num_entries = 0\<rparr> =
   Inr (5, \<lparr>hw_tbl = five_rows, apm_vc = 3, acc_vc = 255, num_entries = 0\<rparr>)"
  by (simp add: gen_params_loop.simps entry_defs five_env_def five_opps_def five_rows_def)

lemma five_fields:
  "attach_genpd_ret (genpd five_env) = 0" "genpd_cpr_vdev (genpd five_env)"
  "cpr_data (genpd five_env) = Some \<lparr>apm_threshold_uV = 750000, mem_acc_threshold_uV = 0\<rparr>"
  "opp_count (genpd five_env) = 5"
  by (simp_all add: five_env_def env_of_def five_opps_def)

lemma five_gen_params:
  "qcom_cpufreq_gen_params (genpd five_env) msm8998_soc_data 4 gen_params_init =
     (0, \<lparr>hw_tbl = five_rows, apm_vc = 3, acc_vc = 255, num_entries = 5\<rparr>)"
  by (simp add: qcom_cpufreq_gen_params_def five_fields gen_params_init_def INT_MAX_def
      U8_MAX_def Let_def five_loop SEQ_MEM_ACC_MAX_LEVELS_def)

text \<open>
  On the platform with five operating points, slot 39 receives row 4.
\<close>

theorem lut_padding_rows_witness:
  "osm_rsrc five_env = Some 0x179c0000 \<and>
   qcom_cpufreq_gen_params (genpd five_env) msm8998_soc_data 4 gen_params_init =
     (0, \<lparr>hw_tbl = five_rows, apm_vc = 3, acc_vc = 255, num_entries = 5\<rparr>) \<and>
   take 5 (drop (5 * 39) (snd (qcom_cpufreq_hw_write_lut five_env msm8998_soc_data 4))) =
     [Writel 0x630 39, Writel 0x638 0x40384, Writel 0x634 0x404004E, Writel 0x63c 0x20,
      Writel 0x644 3]"
proof -
  have rs: "osm_rsrc five_env = Some 0x179c0000"
    by (simp add: five_env_def env_of_def)
  note gp = five_gen_params
  have n: "2 \<le> num_entries \<lparr>hw_tbl = five_rows, apm_vc = 3, acc_vc = 255, num_entries = 5\<rparr>"
    by simp
  have i: "num_entries \<lparr>hw_tbl = five_rows, apm_vc = 3, acc_vc = 255, num_entries = 5\<rparr> \<le> 39"
    "39 < LUT_MAX_ENTRIES"
    by (simp_all add: LUT_MAX_ENTRIES_def)
  from lut_padding_rows [OF rs gp n i]
  have "take 5 (drop (5 * 39) (snd (qcom_cpufreq_hw_write_lut five_env msm8998_soc_data 4))) =
     [Writel 0x630 39, Writel 0x638 0x40384, Writel 0x634 0x404004E, Writel 0x63c 0x20,
      Writel 0x644 3]"
    by (simp add: Let_def five_rows_def msm8998_soc_data_def)
  with rs gp show ?thesis by blast
qed

lemma scan_step_padded:
  "scan_padded tbl n s \<Longrightarrow> n \<le> i \<Longrightarrow> lut_scan_step (lut_entry tbl n i) i s = s"
  by (simp add: scan_padded_def lut_scan_step_def lut_entry_def SEQ_MEM_ACC_MAX_LEVELS_def)

lemma scan_fold_padded:
  "scan_padded tbl n s \<Longrightarrow> n \<le> k \<Longrightarrow>
     fold (\<lambda>i. lut_scan_step (lut_entry tbl n i) i) [k..<m] s = s"
proof (induction m)
  case 0
  then show ?case by simp
next
  case (Suc m)
  show ?case
  proof (cases "k \<le> m")
    case True
    with Suc show ?thesis by (simp add: scan_step_padded)
  next
    case False
    then show ?thesis by simp
  qed
qed

lemma scan_padded_after:
  "scan_padded tbl (Suc m) (lut_scan_step (lut_entry tbl (Suc m) m) m s)"
  by (simp add: scan_padded_def lut_scan_step_def lut_entry_def SEQ_MEM_ACC_MAX_LEVELS_def)

lemma scan_real_rows:
  assumes n: "0 < n" "n \<le> LUT_MAX_ENTRIES"
  shows "snd (write_lut_rows sdata tbl n st) =
           fold (\<lambda>i. lut_scan_step (tbl ! i) i) [0..<n] (snd st)"
proof -
  from n obtain m where m: "n = Suc m" by (cases n) auto
  let ?f = "\<lambda>i. lut_scan_step (lut_entry tbl n i) i"
  have split: "[0..<LUT_MAX_ENTRIES] = [0..<n] @ [n..<LUT_MAX_ENTRIES]"
    using n upt_add_eq_append [of 0 n "LUT_MAX_ENTRIES - n"] by simp
  have pad: "scan_padded tbl n (fold ?f [0..<n] (snd st))"
    unfolding m using scan_padded_after [of tbl m] by simp
  have "fold ?f [0..<n] (snd st) = fold (\<lambda>i. lut_scan_step (tbl ! i) i) [0..<n] (snd st)"
    by (rule fold_cong) (simp_all add: lut_entry_def)
  with pad show ?thesis
    unfolding write_lut_rows_def snd_fold_rows split
    by (simp add: scan_fold_padded)
qed

lemma scan_result_inv:
  assumes n: "0 < n" and first: "spare_val (tbl ! 0) \<le> 1"
  shows "scan_inv tbl n LUT_MAX_ENTRIES (snd (write_lut_rows sdata tbl n ([], lut_scan_init e)))"
  unfolding write_lut_rows_def snd_fold_rows
  using scan_inv_fold [OF n first scan_inv_init [OF n]] by simp

text \<open>
  Claim C1, as amended. For a table whose first row has a spare value of at most 1 and
  that yields two recorded transitions, the derivation leaves four values with
  \<open>acc_val[0] < acc_val[1]\<close> and \<open>acc_val[2] < acc_val[3]\<close>, the last one the corner of
  a real row. Where no customized corner applies they are the two pairs \<open>(i - 1, i)\<close>
  of the transitions, none is negative and \<open>acc_val[1] \<le> acc_val[2]\<close>. Where the
  customized corner applies the four are strictly ascending, and none is negative when
  \<open>acc_val[2]\<close> is at least 2.
\<close>

theorem memacc_crossover_order:
  assumes n: "0 < n" and first: "spare_val (tbl ! 0) \<le> 1"
    and two: "SEQ_MEM_ACC_MAX_LEVELS - 1 \<le>
                acc_idx (snd (write_lut_rows sdata tbl n ([], lut_scan_init e)))"
  shows "let a = acc_val (snd (write_lut_rows sdata tbl n ([], lut_scan_init e)));
             d = memacc_derive v a
         in length d = 4 \<and> d ! 0 < d ! 1 \<and> d ! 2 < d ! 3 \<and> 0 \<le> d ! 3 \<and> d ! 3 < int n \<and>
            (if 0 < v \<and> v \<noteq> U8_MAX
             then d ! 1 < d ! 2 \<and> (2 \<le> d ! 2 \<longrightarrow> 0 \<le> d ! 0)
             else d ! 1 = d ! 0 + 1 \<and> d ! 3 = d ! 2 + 1 \<and> 0 \<le> d ! 0 \<and> d ! 1 \<le> d ! 2)"
proof -
  define s where "s = snd (write_lut_rows sdata tbl n ([], lut_scan_init e))"
  from scan_result_inv [OF n first] have inv: "scan_inv tbl n LUT_MAX_ENTRIES s"
    unfolding s_def .
  from two have "3 \<le> acc_idx s" by (simp add: s_def SEQ_MEM_ACC_MAX_LEVELS_def)
  with inv have idx: "acc_idx s = 4" by (auto simp: scan_inv_def)
  from inv have "length (acc_val s) = 4" by (simp add: scan_inv_def)
  then obtain a0 a1 a2 a3 where a: "acc_val s = [a0, a1, a2, a3]"
    using len4 by blast
  from inv idx a have rel: "a1 = a0 + 1" "1 \<le> a1" "a3 = a2 + 1" "a1 < a3" "a3 < int n"
    by (simp_all add: scan_inv_def)
  have plain: "a0 < a1" "a2 < a3" "0 \<le> a3" "0 \<le> a0" "a1 \<le> a2"
    using rel by simp_all
  show ?thesis
  proof (cases "0 < v \<and> v \<noteq> U8_MAX")
    case False
    then have no: "(0 < v \<and> v \<noteq> U8_MAX) = False" by simp
    from a rel plain show ?thesis
      unfolding s_def [symmetric] Let_def memacc_derive_def no by simp
  next
    case True
    have "memacc_derive v (acc_val s) = memacc_customize v [a0, a1, a2, a3]"
      using True a by (simp add: memacc_derive_def)
    moreover
    from True rel have
      "let c = memacc_customize v [a0, a1, a2, a3]
       in length c = 4 \<and> c ! 0 < c ! 1 \<and> c ! 2 < c ! 3 \<and> 0 \<le> c ! 3 \<and> c ! 3 < int n \<and>
          c ! 1 < c ! 2 \<and> (2 \<le> c ! 2 \<longrightarrow> 0 \<le> c ! 0)"
      by (auto simp: memacc_customize_def Let_def)
    moreover from True have "(0 < v \<and> v \<noteq> U8_MAX) = True" by simp
    ultimately show ?thesis
      unfolding s_def [symmetric] Let_def by simp
  qed
qed

lemma exec_io_accept: "(\<And>a v. scm a v = 0) \<Longrightarrow> exec_io scm ops = (0, ops)"
proof (induction ops)
  case Nil
  show ?case by simp
next
  case (Cons x ops)
  then show ?case by (cases x) simp_all
qed

lemma write_lut_accepting:
  assumes rs: "osm_rsrc e = Some start"
    and gp: "qcom_cpufreq_gen_params (genpd e) sdata cc gen_params_init = (0, gp)"
    and n: "2 \<le> num_entries gp"
    and s: "snd (write_lut_rows sdata (hw_tbl gp) (num_entries gp) ([], lut_scan_init e)) = s"
    and two: "3 \<le> acc_idx s"
    and scm: "\<And>a v. scm_ret e a v = 0"
  shows "qcom_cpufreq_hw_write_lut e sdata cc =
           (0, fst (write_lut_rows sdata (hw_tbl gp) (num_entries gp) ([], lut_scan_init e)) @
               (if 0 < acc_vc gp \<and> acc_vc gp \<noteq> U8_MAX
                then [Scm (SEQUENCER_REG (ucast start + of_nat (reg_osm_sequencer (setup_regs sdata)))
                        SEQ_MEM_ACC_CROSSOVER_VC) (of_nat (num_entries gp + 1))]
                else []) @
               write_lut_tail sdata (ucast start + of_nat (reg_osm_sequencer (setup_regs sdata))) gp
                 (memacc_derive (acc_vc gp) (acc_val s)))"
  using rs gp n s two
  by (simp add: qcom_cpufreq_hw_write_lut_def Let_def exec_io_accept [OF scm]
      SEQ_MEM_ACC_MAX_LEVELS_def)

section \<open>The APM corner when the threshold is not reached\<close>

lemma entry_apm:
  "gen_params_entry g soc cc apm acc i p out = Inr out' \<Longrightarrow>
   \<not> word_of_int apm \<le> (ucast (opp_uV p) :: u32) \<Longrightarrow> apm_vc out' = apm_vc out"
  by (auto simp: gen_params_entry_def Let_def split: option.splits if_splits)

lemma opp_find_freq_ceil_mem:
  "opp_find_freq_ceil tbl rate = Some p \<Longrightarrow> p \<in> set tbl"
  by (auto simp: opp_find_freq_ceil_def find_Some_iff)

lemma loop_apm:
  "gen_params_loop g soc cc apm acc cnt i rate out = Inr (j, out') \<Longrightarrow>
   list_all (\<lambda>p. \<not> word_of_int apm \<le> (ucast (opp_uV p) :: u32)) (opps g) \<Longrightarrow>
   apm_vc out' = apm_vc out"
proof (induction g soc cc apm acc cnt i rate out rule: gen_params_loop.induct)
  case (1 g soc cc apm acc cnt i rate out)
  note eq = gen_params_loop.simps [of g soc cc apm acc cnt i rate out]
  show ?case
  proof (cases "int i \<le> cnt")
    case False
    with "1.prems" show ?thesis by (simp add: eq)
  next
    case True
    show ?thesis
    proof (cases "opp_find_freq_ceil (opps g) rate")
      case None
      with True "1.prems" show ?thesis by (simp add: eq)
    next
      case (Some p)
      with "1.prems"(2) have low: "\<not> word_of_int apm \<le> (ucast (opp_uV p) :: u32)"
        by (auto simp: list_all_iff dest: opp_find_freq_ceil_mem)
      show ?thesis
      proof (cases "gen_params_entry g soc cc apm acc i p out")
        case (Inl e)
        with True Some "1.prems" show ?thesis by (simp add: eq)
      next
        case (Inr out1)
        from True Some Inr "1.prems"(1)
        have "gen_params_loop g soc cc apm acc cnt (i + 1) (opp_rate p + 1) out1 = Inr (j, out')"
          by (simp add: eq)
        from "1.IH" [OF True Some Inr this "1.prems"(2)] entry_apm [OF Inr low]
        show ?thesis by simp
      qed
    qed
  qed
qed

lemma gen_params_apm_unreached:
  assumes "qcom_cpufreq_gen_params g soc cc gen_params_init = (0, gp)"
    and "0 < num_entries gp"
    and "cpr_data g = Some cpr"
    and "list_all (\<lambda>p. \<not> word_of_int (apm_threshold_uV cpr) \<le> (ucast (opp_uV p) :: u32)) (opps g)"
  shows "apm_vc gp = - 1"
  using assms
  by (auto simp: qcom_cpufreq_gen_params_def Let_def gen_params_init_def EINVAL_def ENODATA_def
      split: option.splits if_splits sum.splits prod.splits dest!: loop_apm)

lemma exec_io_zero: "fst (exec_io scm ops) = 0 \<Longrightarrow> snd (exec_io scm ops) = ops"
proof (induction ops)
  case Nil
  show ?case by simp
next
  case (Cons x ops)
  then show ?case by (cases x) (auto simp: Let_def split: if_splits)
qed

lemma write_lut_zero:
  assumes rs: "osm_rsrc e = Some start"
    and ok: "fst (qcom_cpufreq_hw_write_lut e sdata cc) = 0"
  shows "\<exists>gp ws acc.
           qcom_cpufreq_gen_params (genpd e) sdata cc gen_params_init = (0, gp) \<and>
           2 \<le> num_entries gp \<and>
           snd (qcom_cpufreq_hw_write_lut e sdata cc) =
             ws @ write_lut_tail sdata (ucast start + of_nat (reg_osm_sequencer (setup_regs sdata)))
                    gp acc"
proof -
  define seq where "seq = (ucast start :: u32) + of_nat (reg_osm_sequencer (setup_regs sdata))"
  define r where "r = qcom_cpufreq_gen_params (genpd e) sdata cc gen_params_init"
  define st where "st = write_lut_rows sdata (hw_tbl (snd r)) (num_entries (snd r))
                          ([], lut_scan_init e)"
  define r1 where "r1 = (if 0 < acc_vc (snd r) \<and> acc_vc (snd r) \<noteq> U8_MAX
                         then exec_io (scm_ret e)
                                [Scm (SEQUENCER_REG seq SEQ_MEM_ACC_CROSSOVER_VC)
                                     (of_nat (num_entries (snd r) + 1))]
                         else (0, []))"
  define acc where "acc = memacc_derive (acc_vc (snd r)) (acc_val (snd st))"
  define r2 where "r2 = exec_io (scm_ret e) (write_lut_tail sdata seq (snd r) acc)"
  have unfold: "qcom_cpufreq_hw_write_lut e sdata cc =
     (if fst r \<noteq> 0 then (fst r, [])
      else if num_entries (snd r) < 2 then (- EINVAL, [])
      else if acc_idx (snd st) < SEQ_MEM_ACC_MAX_LEVELS - 1 then (- EINVAL, fst st)
      else if fst r1 \<noteq> 0 then (fst r1, fst st @ snd r1)
      else (fst r2, fst st @ snd r1 @ snd r2))"
    using rs
    by (simp add: qcom_cpufreq_hw_write_lut_def Let_def seq_def r_def st_def r1_def acc_def r2_def)
  from ok have a: "fst r = 0" "2 \<le> num_entries (snd r)" "fst r2 = 0"
    and log: "snd (qcom_cpufreq_hw_write_lut e sdata cc) = fst st @ snd r1 @ snd r2"
    unfolding unfold by (auto simp: EINVAL_def split: if_splits)
  from a(3) have "snd r2 = write_lut_tail sdata seq (snd r) acc"
    unfolding r2_def by (rule exec_io_zero)
  with log have "snd (qcom_cpufreq_hw_write_lut e sdata cc) =
      (fst st @ snd r1) @ write_lut_tail sdata seq (snd r) acc"
    by simp
  moreover from a(1) have "r = (0, snd r)" by (cases r) simp
  ultimately show ?thesis
    using a(2) unfolding r_def seq_def by blast
qed

text \<open>
  Whenever no operating point reaches the APM threshold and the programming returns 0,
  the APM threshold corner that was sent is -1: the default of
  \<open>LUT_MAX_ENTRIES - 1\<close> is never taken.
\<close>

lemma apm_corner_unreached:
  assumes rs: "osm_rsrc e = Some start"
    and cpr: "cpr_data (genpd e) = Some cpr"
    and low: "list_all (\<lambda>p. \<not> word_of_int (apm_threshold_uV cpr) \<le> (ucast (opp_uV p) :: u32))
                (opps (genpd e))"
    and ok: "fst (qcom_cpufreq_hw_write_lut e sdata cc) = 0"
  shows "Scm (SEQUENCER_REG (ucast start + of_nat (reg_osm_sequencer (setup_regs sdata)))
                SEQ_APM_THRESH_VC) (- 1)
           \<in> set (snd (qcom_cpufreq_hw_write_lut e sdata cc))"
proof -
  from write_lut_zero [OF rs ok] obtain gp ws acc where
    gp: "qcom_cpufreq_gen_params (genpd e) sdata cc gen_params_init = (0, gp)"
    and n: "2 \<le> num_entries gp"
    and log: "snd (qcom_cpufreq_hw_write_lut e sdata cc) =
             ws @ write_lut_tail sdata (ucast start + of_nat (reg_osm_sequencer (setup_regs sdata)))
                    gp acc"
    by blast
  from n have "0 < num_entries gp" by simp
  from gen_params_apm_unreached [OF gp this cpr low] have "apm_vc gp = - 1" .
  then show ?thesis
    unfolding log by (simp add: write_lut_tail_def Let_def INT_MAX_def)
qed

section \<open>The lookup table on the concrete platforms\<close>

lemma upt5: "[0..<5] = [0, 1, 2, 3, 4]" by code_simp
lemma upt3: "[0..<3] = [0, 1, 2]" by code_simp
lemma upt4: "[0..<4] = [0, 1, 2, 3]" by code_simp

lemmas scan_defs = lut_scan_step_def lut_scan_init_def SEQ_MEM_ACC_MAX_LEVELS_def upt3 upt4 upt5
  word_le_nat_alt

lemma five_scan:
  "snd (write_lut_rows sdata five_rows 5 ([], lut_scan_init e)) =
     \<lparr>last_spare = 3, acc_idx = 4, acc_val = [1, 2, 3, 4]\<rparr>"
  by (simp add: scan_real_rows LUT_MAX_ENTRIES_def five_rows_def scan_defs)

lemma lowered_scan:
  "snd (write_lut_rows sdata lowered_rows 5 ([], lut_scan_init e)) =
     \<lparr>last_spare = 3, acc_idx = 4, acc_val = [0, 1, 3, 4]\<rparr>"
  by (simp add: scan_real_rows LUT_MAX_ENTRIES_def lowered_rows_def scan_defs)

lemma adjacent_scan:
  "snd (write_lut_rows sdata adjacent_rows 3 ([], lut_scan_init e)) =
     \<lparr>last_spare = 3, acc_idx = 4, acc_val = [0, 1, 1, 2]\<rparr>"
  by (simp add: scan_real_rows LUT_MAX_ENTRIES_def adjacent_rows_def scan_defs)

lemma lowered_loop:
  "gen_params_loop (genpd lowered_env) msm8998_soc_data 4 750000 800000 5 0 1000
     \<lparr>hw_tbl = [], apm_vc = - 1, acc_vc = - 1, num_entries = 0\<rparr> =
   Inr (5, \<lparr>hw_tbl = lowered_rows, apm_vc = 3, acc_vc = 3, num_entries = 0\<rparr>)"
  by (simp add: gen_params_loop.simps entry_defs lowered_env_def lowered_opps_def lowered_rows_def)

lemma lowered_fields:
  "attach_genpd_ret (genpd lowered_env) = 0" "genpd_cpr_vdev (genpd lowered_env)"
  "cpr_data (genpd lowered_env) =
     Some \<lparr>apm_threshold_uV = 750000, mem_acc_threshold_uV = 800000\<rparr>"
  "opp_count (genpd lowered_env) = 5"
  by (simp_all add: lowered_env_def env_of_def lowered_opps_def)

lemma lowered_gen_params:
  "qcom_cpufreq_gen_params (genpd lowered_env) msm8998_soc_data 4 gen_params_init =
     (0, \<lparr>hw_tbl = lowered_rows, apm_vc = 3, acc_vc = 3, num_entries = 5\<rparr>)"
  by (simp add: qcom_cpufreq_gen_params_def lowered_fields gen_params_init_def INT_MAX_def
      U8_MAX_def Let_def lowered_loop SEQ_MEM_ACC_MAX_LEVELS_def)

lemma unreached_loop:
  "gen_params_loop (genpd apm_unreached_env) msm8998_soc_data 4 950000 2147483647 5 0 1000
     \<lparr>hw_tbl = [], apm_vc = - 1, acc_vc = 255, num_entries = 0\<rparr> =
   Inr (5, \<lparr>hw_tbl = five_rows, apm_vc = - 1, acc_vc = 255, num_entries = 0\<rparr>)"
  by (simp add: gen_params_loop.simps entry_defs apm_unreached_env_def five_opps_def five_rows_def)

lemma unreached_fields:
  "attach_genpd_ret (genpd apm_unreached_env) = 0" "genpd_cpr_vdev (genpd apm_unreached_env)"
  "cpr_data (genpd apm_unreached_env) =
     Some \<lparr>apm_threshold_uV = 950000, mem_acc_threshold_uV = 0\<rparr>"
  "opp_count (genpd apm_unreached_env) = 5"
  by (simp_all add: apm_unreached_env_def env_of_def five_opps_def)

lemma unreached_gen_params:
  "qcom_cpufreq_gen_params (genpd apm_unreached_env) msm8998_soc_data 4 gen_params_init =
     (0, \<lparr>hw_tbl = five_rows, apm_vc = - 1, acc_vc = 255, num_entries = 5\<rparr>)"
  by (simp add: qcom_cpufreq_gen_params_def unreached_fields gen_params_init_def INT_MAX_def
      U8_MAX_def Let_def unreached_loop SEQ_MEM_ACC_MAX_LEVELS_def)

lemma adjacent_loop:
  "gen_params_loop (genpd adjacent_env) msm8998_soc_data 4 550000 2147483647 3 0 1000
     \<lparr>hw_tbl = [], apm_vc = - 1, acc_vc = 255, num_entries = 0\<rparr> =
   Inr (3, \<lparr>hw_tbl = adjacent_rows, apm_vc = 1, acc_vc = 255, num_entries = 0\<rparr>)"
  by (simp add: gen_params_loop.simps entry_defs adjacent_env_def adjacent_opps_def
      adjacent_rows_def)

lemma adjacent_fields:
  "attach_genpd_ret (genpd adjacent_env) = 0" "genpd_cpr_vdev (genpd adjacent_env)"
  "cpr_data (genpd adjacent_env) =
     Some \<lparr>apm_threshold_uV = 550000, mem_acc_threshold_uV = 0\<rparr>"
  "opp_count (genpd adjacent_env) = 3"
  by (simp_all add: adjacent_env_def env_of_def adjacent_opps_def)

lemma adjacent_gen_params:
  "qcom_cpufreq_gen_params (genpd adjacent_env) msm8998_soc_data 4 gen_params_init =
     (0, \<lparr>hw_tbl = adjacent_rows, apm_vc = 1, acc_vc = 255, num_entries = 3\<rparr>)"
  by (simp add: qcom_cpufreq_gen_params_def adjacent_fields gen_params_init_def INT_MAX_def
      U8_MAX_def Let_def adjacent_loop SEQ_MEM_ACC_MAX_LEVELS_def)

lemma env_of_rsrc: "osm_rsrc (env_of ps apm acc) = Some 0x179c0000"
  and env_of_scm: "scm_ret (env_of ps apm acc) a v = 0"
  by (simp_all add: env_of_def)

lemmas tail_defs = write_lut_tail_def memacc_derive_def memacc_customize_def Let_def
  SEQUENCER_REG_def SEQ_MEMACC_REG_def SEQ_MEM_ACC_0_def SEQ_MEM_ACC_LVAL_def
  SEQ_APM_CROSSOVER_VC_def SEQ_APM_THRESH_VC_def SEQ_APM_THRESH_PREVC_def SEQ_APM_PARAM_def
  SEQ_MEM_ACC_CROSSOVER_VC_def SEQ_MEM_ACC_MAX_LEVELS_def FIELD_GET_def GENMASK_def
  mask_eq_exp_minus_1 INT_MAX_def U8_MAX_def LUT_MAX_ENTRIES_def upt4 msm8998_soc_data_def

lemma lowered_write_lut:
  "qcom_cpufreq_hw_write_lut lowered_env msm8998_soc_data 4 =
     (0, fst (write_lut_rows msm8998_soc_data lowered_rows 5 ([], lut_scan_init lowered_env)) @
         [Scm 0x179c0460 6,
          Scm 0x179c0337 0xFFFFFFFF, Scm 0x179c033b 0, Scm 0x179c033f 1, Scm 0x179c0343 2,
          Scm 0x179c0380 0x2E, Writel 0x48 5, Scm 0x179c0420 5,
          Scm 0x179c033c 3, Scm 0x179c037c 2, Scm 0x179c0430 0xF9])"
proof -
  have rs: "osm_rsrc lowered_env = Some 0x179c0000"
    by (simp add: lowered_env_def env_of_rsrc)
  have scm: "\<And>a v. scm_ret lowered_env a v = 0"
    by (simp add: lowered_env_def env_of_scm)
  show ?thesis
    unfolding write_lut_accepting [OF rs lowered_gen_params _ _ _ scm, simplified,
        OF lowered_scan, simplified]
    by (simp add: tail_defs lowered_rows_def)
qed

lemma five_write_lut:
  "qcom_cpufreq_hw_write_lut five_env msm8998_soc_data 4 =
     (0, fst (write_lut_rows msm8998_soc_data five_rows 5 ([], lut_scan_init five_env)) @
         [Scm 0x179c0337 1, Scm 0x179c033b 2, Scm 0x179c033f 3, Scm 0x179c0343 4,
          Scm 0x179c0380 0x4E, Writel 0x48 5, Scm 0x179c0420 5,
          Scm 0x179c033c 3, Scm 0x179c037c 2, Scm 0x179c0430 0xF9])"
proof -
  have rs: "osm_rsrc five_env = Some 0x179c0000"
    by (simp add: five_env_def env_of_rsrc)
  have scm: "\<And>a v. scm_ret five_env a v = 0"
    by (simp add: five_env_def env_of_scm)
  show ?thesis
    unfolding write_lut_accepting [OF rs five_gen_params _ _ _ scm, simplified,
        OF five_scan, simplified]
    by (simp add: tail_defs five_rows_def)
qed

lemma unreached_write_lut:
  "qcom_cpufreq_hw_write_lut apm_unreached_env msm8998_soc_data 4 =
     (0, fst (write_lut_rows msm8998_soc_data five_rows 5 ([], lut_scan_init apm_unreached_env)) @
         [Scm 0x179c0337 1, Scm 0x179c033b 2, Scm 0x179c033f 3, Scm 0x179c0343 4,
          Scm 0x179c0380 0x4E, Writel 0x48 5, Scm 0x179c0420 5,
          Scm 0x179c033c 0xFFFFFFFF, Scm 0x179c037c 0xFFFFFFFE, Scm 0x179c0430 0xFFFFFFF9])"
proof -
  have rs: "osm_rsrc apm_unreached_env = Some 0x179c0000"
    by (simp add: apm_unreached_env_def env_of_rsrc)
  have scm: "\<And>a v. scm_ret apm_unreached_env a v = 0"
    by (simp add: apm_unreached_env_def env_of_scm)
  show ?thesis
    unfolding write_lut_accepting [OF rs unreached_gen_params _ _ _ scm, simplified,
        OF five_scan, simplified]
    by (simp add: tail_defs five_rows_def)
qed

lemma adjacent_write_lut:
  "qcom_cpufreq_hw_write_lut adjacent_env msm8998_soc_data 4 =
     (0, fst (write_lut_rows msm8998_soc_data adjacent_rows 3 ([], lut_scan_init adjacent_env)) @
         [Scm 0x179c0337 0, Scm 0x179c033b 1, Scm 0x179c033f 1, Scm 0x179c0343 2,
          Scm 0x179c0380 0x2E, Writel 0x48 3, Scm 0x179c0420 3,
          Scm 0x179c033c 1, Scm 0x179c037c 0, Scm 0x179c0430 0x79])"
proof -
  have rs: "osm_rsrc adjacent_env = Some 0x179c0000"
    by (simp add: adjacent_env_def env_of_rsrc)
  have scm: "\<And>a v. scm_ret adjacent_env a v = 0"
    by (simp add: adjacent_env_def env_of_scm)
  show ?thesis
    unfolding write_lut_accepting [OF rs adjacent_gen_params _ _ _ scm, simplified,
        OF adjacent_scan, simplified]
    by (simp add: tail_defs adjacent_rows_def)
qed

text \<open>
  On the platform with five operating points and the levels 1, 1, 2, 2, 3 the values
  are 1, 2, 3, 4 without a customized corner; with the levels 1, 2, 2, 2, 3 and a
  customized corner 4 they are 0, 1, 2, 3.
\<close>

theorem memacc_crossover_order_witness:
  "0 < (5 :: nat) \<and> spare_val (five_rows ! 0) \<le> 1 \<and> spare_val (lowered_rows ! 0) \<le> 1 \<and>
   acc_idx (snd (write_lut_rows msm8998_soc_data five_rows 5 ([], lut_scan_init five_env))) = 4 \<and>
   acc_idx (snd (write_lut_rows msm8998_soc_data lowered_rows 5 ([], lut_scan_init lowered_env))) = 4 \<and>
   memacc_derive 255 (acc_val (snd (write_lut_rows msm8998_soc_data five_rows 5
      ([], lut_scan_init five_env)))) = [1, 2, 3, 4] \<and>
   memacc_derive 4 (acc_val (snd (write_lut_rows msm8998_soc_data lowered_rows 5
      ([], lut_scan_init lowered_env)))) = [0, 1, 2, 3] \<and>
   (let d = memacc_derive 255 (acc_val (snd (write_lut_rows msm8998_soc_data five_rows 5
              ([], lut_scan_init five_env))))
    in length d = 4 \<and> 0 \<le> d ! 0 \<and> d ! 0 < d ! 1 \<and> d ! 1 \<le> d ! 2 \<and> d ! 2 < d ! 3 \<and> d ! 3 < 5) \<and>
   (let d = memacc_derive 4 (acc_val (snd (write_lut_rows msm8998_soc_data lowered_rows 5
              ([], lut_scan_init lowered_env))))
    in length d = 4 \<and> 2 \<le> d ! 2 \<and> 0 \<le> d ! 0 \<and> d ! 0 < d ! 1 \<and> d ! 1 < d ! 2 \<and> d ! 2 < d ! 3 \<and>
       d ! 3 < 5)"
proof -
  have n: "0 < (5 :: nat)" by simp
  have f1: "spare_val (five_rows ! 0) \<le> 1" by (simp add: five_rows_def)
  have f2: "spare_val (lowered_rows ! 0) \<le> 1" by (simp add: lowered_rows_def)
  have t1: "SEQ_MEM_ACC_MAX_LEVELS - 1 \<le>
      acc_idx (snd (write_lut_rows msm8998_soc_data five_rows 5 ([], lut_scan_init five_env)))"
    by (simp add: five_scan SEQ_MEM_ACC_MAX_LEVELS_def)
  have t2: "SEQ_MEM_ACC_MAX_LEVELS - 1 \<le>
      acc_idx (snd (write_lut_rows msm8998_soc_data lowered_rows 5 ([], lut_scan_init lowered_env)))"
    by (simp add: lowered_scan SEQ_MEM_ACC_MAX_LEVELS_def)
  have d1: "memacc_derive 255 [1, 2, 3, 4] = [1, 2, 3, 4]"
    by (simp add: memacc_derive_def U8_MAX_def)
  have d2: "memacc_derive 4 [0, 1, 3, 4] = [0, 1, 2, 3]"
    by (simp add: memacc_derive_def memacc_customize_def U8_MAX_def)
  from memacc_crossover_order [OF n f1 t1, of 255] memacc_crossover_order [OF n f2 t2, of 4]
    f1 f2
  show ?thesis
    by (simp add: five_scan lowered_scan d1 d2 U8_MAX_def)
qed

text \<open>
  Claim C1 as stated fails where the level rises at two corners in a row. The table
  with the levels 1, 2, 3 is in ascending order, starts at level 1 and yields two
  pairs, and with no customized corner the values of the four MEM-ACC writes are
  0, 1, 1, 2: the second and the third are equal. The writes go to the addresses
  that \<open>SEQ_MEMACC_REG\<close> computes from the sequencer address \<open>0x179c0300\<close>. It also
  fails after the customized adjustment: the table with the levels 1, 2, 2, 2, 3 and
  the customized corner 3 ends with the values -1, 0, 1, 2.
\<close>

theorem memacc_crossover_order_counterexample:
  "sorted (map spare_val adjacent_rows) \<and> spare_val (adjacent_rows ! 0) = 1 \<and>
   qcom_cpufreq_gen_params (genpd adjacent_env) msm8998_soc_data 4 gen_params_init =
     (0, \<lparr>hw_tbl = adjacent_rows, apm_vc = 1, acc_vc = 255, num_entries = 3\<rparr>) \<and>
   acc_idx (snd (write_lut_rows msm8998_soc_data adjacent_rows 3
      ([], lut_scan_init adjacent_env))) = 4 \<and>
   memacc_derive 255 (acc_val (snd (write_lut_rows msm8998_soc_data adjacent_rows 3
      ([], lut_scan_init adjacent_env)))) = [0, 1, 1, 2] \<and>
   \<not> (let d = memacc_derive 255 (acc_val (snd (write_lut_rows msm8998_soc_data adjacent_rows 3
               ([], lut_scan_init adjacent_env))))
      in d ! 0 < d ! 1 \<and> d ! 1 < d ! 2 \<and> d ! 2 < d ! 3) \<and>
   fst (qcom_cpufreq_hw_write_lut adjacent_env msm8998_soc_data 4) = 0 \<and>
   take 4 (drop 200 (snd (qcom_cpufreq_hw_write_lut adjacent_env msm8998_soc_data 4))) =
     [Scm 0x179c0337 0, Scm 0x179c033b 1, Scm 0x179c033f 1, Scm 0x179c0343 2] \<and>
   sorted (map spare_val lowered_rows) \<and> spare_val (lowered_rows ! 0) = 1 \<and>
   acc_idx (snd (write_lut_rows msm8998_soc_data lowered_rows 5
      ([], lut_scan_init lowered_env))) = 4 \<and>
   memacc_derive 3 (acc_val (snd (write_lut_rows msm8998_soc_data lowered_rows 5
      ([], lut_scan_init lowered_env)))) = [- 1, 0, 1, 2] \<and>
   \<not> 0 \<le> memacc_derive 3 (acc_val (snd (write_lut_rows msm8998_soc_data lowered_rows 5
      ([], lut_scan_init lowered_env)))) ! 0"
proof -
  have d: "memacc_derive 255 [0, 1, 1, 2] = [0, 1, 1, 2]"
    by (simp add: memacc_derive_def U8_MAX_def)
  have c: "memacc_derive 3 [0, 1, 3, 4] = [- 1, 0, 1, 2]"
    by (simp add: memacc_derive_def memacc_customize_def U8_MAX_def)
  have s: "sorted (map spare_val adjacent_rows)" "spare_val (adjacent_rows ! 0) = 1"
    "sorted (map spare_val lowered_rows)" "spare_val (lowered_rows ! 0) = 1"
    by (simp_all add: adjacent_rows_def lowered_rows_def word_le_nat_alt)
  from s show ?thesis
    by (simp add: adjacent_gen_params adjacent_scan d adjacent_write_lut rows_len
        lowered_scan c)
qed

text \<open>
  Claim C2, where the customized corner leads below corner 0. With the levels
  1, 2, 2, 2, 3 the pairs are (0, 1) and (3, 4). The MEM-ACC threshold of 800 mV is
  reached at corner 3, which \<open>qcom_cpufreq_gen_params\<close> accepts as it is not below
  \<open>SEQ_MEM_ACC_MAX_LEVELS - 1\<close>. The corner is lowered to 2, the upper pair becomes
  (1, 2), the lower pair is moved down to (-1, 0), the function returns 0 and the first
  of the four MEM-ACC writes carries -1, that is \<open>0xFFFFFFFF\<close>. The sequencer address
  is \<open>0x179c0300\<close>; the four writes go to \<open>SEQ_MEMACC_REG(seq_addr, i)\<close>, which is
  \<open>seq_addr + 55 + i * 4\<close>, the others to \<open>SEQUENCER_REG(seq_addr, n)\<close>, which is
  \<open>seq_addr + n * 4\<close>.
\<close>

theorem lowered_corner_write_lut:
  "qcom_cpufreq_gen_params (genpd lowered_env) msm8998_soc_data 4 gen_params_init =
     (0, \<lparr>hw_tbl = lowered_rows, apm_vc = 3, acc_vc = 3, num_entries = 5\<rparr>) \<and>
   acc_val (snd (write_lut_rows msm8998_soc_data lowered_rows 5
      ([], lut_scan_init lowered_env))) = [0, 1, 3, 4] \<and>
   memacc_derive 3 [0, 1, 3, 4] = [- 1, 0, 1, 2] \<and>
   fst (qcom_cpufreq_hw_write_lut lowered_env msm8998_soc_data 4) = 0 \<and>
   drop 200 (snd (qcom_cpufreq_hw_write_lut lowered_env msm8998_soc_data 4)) =
     [Scm 0x179c0460 6,
      Scm 0x179c0337 0xFFFFFFFF, Scm 0x179c033b 0, Scm 0x179c033f 1, Scm 0x179c0343 2,
      Scm 0x179c0380 0x2E,
      Writel 0x48 5,
      Scm 0x179c0420 5,
      Scm 0x179c033c 3,
      Scm 0x179c037c 2,
      Scm 0x179c0430 0xF9] \<and>
   map (SEQ_MEMACC_REG 0x179c0300) [0, 1, 2, 3] =
     [0x179c0337, 0x179c033b, 0x179c033f, 0x179c0343]"
proof -
  have d: "memacc_derive 3 [0, 1, 3, 4] = [- 1, 0, 1, 2]"
    by (simp add: memacc_derive_def memacc_customize_def U8_MAX_def)
  show ?thesis
    by (simp add: lowered_gen_params lowered_scan d lowered_write_lut rows_len
        SEQ_MEMACC_REG_def SEQ_MEM_ACC_0_def)
qed

text \<open>
  Claim C3, where no operating point reaches the APM threshold. Every voltage is below
  the threshold of 950 mV, \<open>qcom_cpufreq_gen_params\<close> returns with \<open>apm_vc = -1\<close>, which
  is not the \<open>INT_MAX\<close> that \<open>qcom_cpufreq_hw_write_lut\<close> replaces by
  \<open>LUT_MAX_ENTRIES - 1\<close>, and the function returns 0 having sent -1, -2 and
  \<open>0x39 | (-1 << 6)\<close> as the APM corner, its predecessor and the parameter word,
  not 39. The sequencer address is \<open>0x179c0300\<close>; the APM corner is written to
  \<open>SEQUENCER_REG(seq_addr, SEQ_APM_THRESH_VC)\<close>, which is \<open>0x179c033c\<close>.
\<close>

theorem apm_unreached_write_lut:
  "list_all (\<lambda>p. ucast (opp_uV p) < (950000 :: u32)) (opps (genpd apm_unreached_env)) \<and>
   qcom_cpufreq_gen_params (genpd apm_unreached_env) msm8998_soc_data 4 gen_params_init =
     (0, \<lparr>hw_tbl = five_rows, apm_vc = - 1, acc_vc = 255, num_entries = 5\<rparr>) \<and>
   fst (qcom_cpufreq_hw_write_lut apm_unreached_env msm8998_soc_data 4) = 0 \<and>
   drop 200 (snd (qcom_cpufreq_hw_write_lut apm_unreached_env msm8998_soc_data 4)) =
     [Scm 0x179c0337 1, Scm 0x179c033b 2, Scm 0x179c033f 3, Scm 0x179c0343 4,
      Scm 0x179c0380 0x4E,
      Writel 0x48 5,
      Scm 0x179c0420 5,
      Scm 0x179c033c 0xFFFFFFFF,
      Scm 0x179c037c 0xFFFFFFFE,
      Scm 0x179c0430 0xFFFFFFF9] \<and>
   SEQUENCER_REG 0x179c0300 SEQ_APM_THRESH_VC = 0x179c033c \<and>
   word_of_int (int LUT_MAX_ENTRIES - 1) \<noteq> (0xFFFFFFFF :: u32)"
proof -
  have v: "list_all (\<lambda>p. ucast (opp_uV p) < (950000 :: u32)) (opps (genpd apm_unreached_env))"
    by (simp add: apm_unreached_env_def env_of_def five_opps_def opp_of_def word_less_nat_alt)
  from v show ?thesis
    by (simp add: unreached_gen_params unreached_write_lut rows_len
        SEQUENCER_REG_def SEQ_APM_THRESH_VC_def LUT_MAX_ENTRIES_def)
qed

section \<open>Adaptive clock distribution: proofs\<close>

lemma autoxfer_trace:
  "snd (qcom_cpufreq_hw_acd_write_autoxfer hw aregs val h) = h @ autoxfer_ops aregs val"
  by (simp add: qcom_cpufreq_hw_acd_write_autoxfer_def acd_poll_def acd_writel_def Let_def
      autoxfer_ops_def)

lemma xfer_trace:
  "snd (qcom_cpufreq_hw_acd_write_xfer hw aregs reg val h) = h @ xfer_ops aregs reg val"
  by (simp add: qcom_cpufreq_hw_acd_write_xfer_def acd_poll_def acd_writel_def Let_def
      xfer_ops_def)

text \<open>
  Claim C5, as amended. Without the ACD block the initialization returns 0 and does
  nothing. With it, every run that returns 0 has made exactly the steps of
  \<open>acd_sequence_written\<close>: the specified steps up to the manual transfer of the final
  external-interface value, then one write of the accumulated mask with the
  clock-mux-select bit to the auto-transfer configuration register, with no start
  pulse and no poll, then the delay of \<open>OSM_BOOT_TIME_US\<close>.
\<close>

theorem acd_init_sequence:
  "qcom_cpufreq_hw_acd_init hw False aregs = (0, []) \<and>
   (\<forall>h. qcom_cpufreq_hw_acd_init hw True aregs = (0, h) \<longrightarrow> h = acd_sequence_written aregs)"
proof (intro conjI allI impI)
  show "qcom_cpufreq_hw_acd_init hw False aregs = (0, [])"
    by (simp add: qcom_cpufreq_hw_acd_init_def)
next
  fix h
  assume ok: "qcom_cpufreq_hw_acd_init hw True aregs = (0, h)"
  define h0 where "h0 =
     acd_writel (auto_xfer_val aregs) (auto_xfer_ctl_reg aregs)
      (acd_writel (ext_intf0_val aregs) (ext_intf_reg aregs)
        (acd_writel (softstart_val aregs) (softstart_reg aregs)
          (acd_writel (acd_ctrl_val aregs) (acd_ctrl_reg aregs)
            (acd_writel (tl_delay_val aregs) (tl_delay_reg aregs) []))))"
  define r1 where "r1 = qcom_cpufreq_hw_acd_write_autoxfer hw aregs (acd_rmask aregs) h0"
  define r2 where "r2 = qcom_cpufreq_hw_acd_write_xfer hw aregs (gfmux_cfg_reg aregs) 1 (snd r1)"
  define r3 where "r3 = qcom_cpufreq_hw_acd_write_xfer hw aregs (dcvs_sw_reg aregs) 1 (snd r2)"
  define r4 where "r4 = qcom_cpufreq_hw_acd_write_xfer hw aregs (dcvs_sw_reg aregs) 0 (snd r3)"
  define r5 where "r5 = qcom_cpufreq_hw_acd_write_xfer hw aregs (ext_intf_reg aregs)
                          (ext_intf1_val aregs) (udelay 1 (snd r4))"
  have unfold: "qcom_cpufreq_hw_acd_init hw True aregs =
     (if fst r1 \<noteq> 0 then r1 else if fst r2 \<noteq> 0 then r2 else if fst r3 \<noteq> 0 then r3
      else if fst r4 \<noteq> 0 then r4 else if fst r5 \<noteq> 0 then r5
      else (0, udelay OSM_BOOT_TIME_US
                 (acd_writel (acd_rmask aregs OR qcom_cpufreq_acd_regbit (gfmux_cfg_reg aregs))
                    (auto_xfer_cfg_reg aregs) (snd r5))))"
    by (simp add: qcom_cpufreq_hw_acd_init_def Let_def r1_def r2_def r3_def r4_def r5_def h0_def
        acd_rmask_def)
  from ok have all: "fst r1 = 0" "fst r2 = 0" "fst r3 = 0" "fst r4 = 0" "fst r5 = 0"
    unfolding unfold by (auto split: if_splits)
  with ok have h: "h = udelay OSM_BOOT_TIME_US
                 (acd_writel (acd_rmask aregs OR qcom_cpufreq_acd_regbit (gfmux_cfg_reg aregs))
                    (auto_xfer_cfg_reg aregs) (snd r5))"
    unfolding unfold by simp
  have "snd r5 = acd_sequence_head aregs"
    unfolding r5_def r4_def r3_def r2_def r1_def h0_def xfer_trace autoxfer_trace
    by (simp add: acd_sequence_head_def acd_writel_def udelay_def)
  with h show "h = acd_sequence_written aregs"
    by (simp add: acd_sequence_written_def acd_writel_def udelay_def)
qed

lemma msm8998_acd_init:
  "qcom_cpufreq_hw_acd_init acd_ready True msm8998_acd_data =
     (0, [Acd_writel 38417 0x8, Acd_writel 0x2b5ffd 0x4, Acd_writel 0x501 0x28,
          Acd_writel 0x2cf9ae8 0x30, Acd_writel 0x15 0x88,
          Acd_writel 0x1406 0x80, Acd_writel 0 0x84, Acd_writel 1 0x84, Acd_poll 0x8c 1,
          Acd_writel 1 0x3c, Acd_writel 0 0x90, Acd_writel 31 0x90, Acd_poll 0x94 0x8000,
          Acd_writel 1 0x34, Acd_writel 0 0x90, Acd_writel 27 0x90, Acd_poll 0x94 0x2000,
          Acd_writel 0 0x34, Acd_writel 0 0x90, Acd_writel 27 0x90, Acd_poll 0x94 0x2000,
          Udelay 1,
          Acd_writel 0x2cf9afe 0x30, Acd_writel 0 0x90, Acd_writel 25 0x90, Acd_poll 0x94 0x1000,
          Acd_writel 0x9406 0x80, Udelay 5])"
  by (simp add: qcom_cpufreq_hw_acd_init_def qcom_cpufreq_hw_acd_write_autoxfer_def
      qcom_cpufreq_hw_acd_write_xfer_def acd_poll_def acd_writel_def udelay_def Let_def
      readl_poll_timeout_def acd_ready_def msm8998_acd_data_def qcom_cpufreq_acd_regbit_def
      ACD_WRITE_CTL_SELECT_SHIFT_def ACD_WRITE_CTL_UPDATE_EN_def OSM_BOOT_TIME_US_def)

text \<open>
  On the msm8998 block with a status that is ready at once, the run returns 0 and ends
  with the write of \<open>0x9406\<close> to the configuration register and the delay of 5 us.
\<close>

theorem acd_init_sequence_witness:
  "qcom_cpufreq_hw_acd_init acd_ready False msm8998_acd_data = (0, []) \<and>
   fst (qcom_cpufreq_hw_acd_init acd_ready True msm8998_acd_data) = 0 \<and>
   snd (qcom_cpufreq_hw_acd_init acd_ready True msm8998_acd_data) =
     acd_sequence_written msm8998_acd_data \<and>
   drop 26 (acd_sequence_written msm8998_acd_data) = [Acd_writel 0x9406 0x80, Udelay 5]"
proof -
  from acd_init_sequence [of acd_ready msm8998_acd_data] msm8998_acd_init
  have "qcom_cpufreq_hw_acd_init acd_ready False msm8998_acd_data = (0, [])"
    and w: "snd (qcom_cpufreq_hw_acd_init acd_ready True msm8998_acd_data) =
      acd_sequence_written msm8998_acd_data"
    by simp_all
  moreover have "drop 26 (acd_sequence_written msm8998_acd_data) =
      [Acd_writel 0x9406 0x80, Udelay 5]"
    unfolding w [symmetric] by (simp add: msm8998_acd_init)
  ultimately show ?thesis by (simp add: msm8998_acd_init)
qed

lemma msm8998_acd_specified:
  "acd_sequence_specified msm8998_acd_data =
     [Acd_writel 38417 0x8, Acd_writel 0x2b5ffd 0x4, Acd_writel 0x501 0x28,
      Acd_writel 0x2cf9ae8 0x30, Acd_writel 0x15 0x88,
      Acd_writel 0x1406 0x80, Acd_writel 0 0x84, Acd_writel 1 0x84, Acd_poll 0x8c 1,
      Acd_writel 1 0x3c, Acd_writel 0 0x90, Acd_writel 31 0x90, Acd_poll 0x94 0x8000,
      Acd_writel 1 0x34, Acd_writel 0 0x90, Acd_writel 27 0x90, Acd_poll 0x94 0x2000,
      Acd_writel 0 0x34, Acd_writel 0 0x90, Acd_writel 27 0x90, Acd_poll 0x94 0x2000,
      Udelay 1,
      Acd_writel 0x2cf9afe 0x30, Acd_writel 0 0x90, Acd_writel 25 0x90, Acd_poll 0x94 0x1000,
      Acd_writel 0x9406 0x80, Acd_writel 0 0x84, Acd_writel 1 0x84, Acd_poll 0x8c 1,
      Udelay 5]"
  by (simp add: acd_sequence_specified_def acd_sequence_head_def
      autoxfer_ops_def xfer_ops_def acd_rmask_def msm8998_acd_data_def
      qcom_cpufreq_acd_regbit_def ACD_WRITE_CTL_SELECT_SHIFT_def ACD_WRITE_CTL_UPDATE_EN_def
      OSM_BOOT_TIME_US_def)

text \<open>
  Claim C5 as stated fails on the msm8998 block: the run returns 0, and its last step is
  not the auto-transfer of the specified sequence, which would pulse the start bit at
  \<open>0x84\<close> and poll the status at \<open>0x8c\<close> after the write of the mask.
\<close>

theorem acd_init_sequence_counterexample:
  "fst (qcom_cpufreq_hw_acd_init acd_ready True msm8998_acd_data) = 0 \<and>
   snd (qcom_cpufreq_hw_acd_init acd_ready True msm8998_acd_data) \<noteq>
     acd_sequence_specified msm8998_acd_data \<and>
   drop 26 (snd (qcom_cpufreq_hw_acd_init acd_ready True msm8998_acd_data)) =
     [Acd_writel 0x9406 0x80, Udelay 5] \<and>
   drop 26 (acd_sequence_specified msm8998_acd_data) =
     [Acd_writel 0x9406 0x80, Acd_writel 0 0x84, Acd_writel 1 0x84, Acd_poll 0x8c 1, Udelay 5]"
  by (simp add: msm8998_acd_init msm8998_acd_specified)

section \<open>Throttle notifications: proofs\<close>

text \<open>
  Claim C7. A poll that fires while the interrupt line is disabled publishes the
  throttled frequency and then does one of three things. With cancellation requested it
  enables nothing and queues nothing. Otherwise, with the throttled frequency at or
  above the frequency read back by \<open>qcom_cpufreq_hw_get\<close>, it enables the interrupt
  line and queues nothing; with a lower throttled frequency it leaves the line disabled
  and queues the work item once, 10 ms ahead.
\<close>

theorem lmh_poll_iteration:
  assumes req: "qcom_cpufreq_hw_get k (cpumask_first k (cpus policy)) = Some requested"
    and polling: "\<not> irq_enabled t"
  shows "\<exists>t'. qcom_lmh_dcvs_poll k policy t = Some t' \<and>
     (let data = driver_data policy; f = lmh_throttled_freq k policy;
          pressure = Update_thermal_pressure (related_cpus policy) f
      in (cancel_throttle data \<longrightarrow>
            calls t' = calls t @ [pressure] \<and> \<not> irq_enabled t' \<and> poll_after_ms t' = None \<and>
            throttle_mode_of data t' = Cancelled) \<and>
         (\<not> cancel_throttle data \<and> ucast requested \<le> f \<longrightarrow>
            calls t' = calls t @ [pressure, Enable_irq (throttle_irq data)] \<and>
            irq_enabled t' \<and> poll_after_ms t' = None \<and>
            throttle_mode_of data t' = IrqArmed) \<and>
         (\<not> cancel_throttle data \<and> f < ucast requested \<longrightarrow>
            calls t' = calls t @ [pressure, Mod_delayed_work 10] \<and>
            \<not> irq_enabled t' \<and> poll_after_ms t' = Some 10 \<and>
            throttle_mode_of data t' = Polling))"
  using req polling
  by (auto simp: qcom_lmh_dcvs_poll_def qcom_lmh_dcvs_notify_def Let_def
      arch_update_thermal_pressure_def enable_irq_def mod_delayed_work_def
      throttle_mode_of_def not_le)

lemma cluster_throttled_62:
  "lmh_throttled_freq (cluster_kernel c 4 62) (cluster_policy c) = 1190400"
  by (simp add: lmh_throttled_freq_def Let_def cluster_kernel_def cluster_policy_def
      cluster_data_def qcom_soc_data_def cpumask_first_def qcom_lmh_get_throttle_freq_def
      readl_relaxed_def HZ_PER_KHZ_def dev_pm_opp_find_freq_floor_def opp_find_freq_floor_def
      cluster_opps_def)

lemma cluster_throttled_78:
  "lmh_throttled_freq (cluster_kernel c 4 78) (cluster_policy c) = 1497600"
  by (simp add: lmh_throttled_freq_def Let_def cluster_kernel_def cluster_policy_def
      cluster_data_def qcom_soc_data_def cpumask_first_def qcom_lmh_get_throttle_freq_def
      readl_relaxed_def HZ_PER_KHZ_def dev_pm_opp_find_freq_floor_def opp_find_freq_floor_def
      cluster_opps_def)

lemma cluster_requested:
  "qcom_cpufreq_hw_get (cluster_kernel c 4 v) (cpumask_first (cluster_kernel c 4 v)
     (cpus (cluster_policy c))) = Some 1497600"
  by (simp add: qcom_cpufreq_hw_get_def cpufreq_cpu_get_raw_def cluster_kernel_def
      cluster_policy_def cluster_data_def qcom_soc_data_def cpumask_first_def readl_relaxed_def
      Let_def LUT_MAX_ENTRIES_def freq_table_at_def cluster_freq_table_def)

text \<open>
  On the cluster with row 4 (1497600 kHz) requested: a vote of 62 (1190400 kHz) keeps
  polling, a vote of 78 arms the interrupt, and with cancellation requested the vote of
  62 is published and nothing else happens.
\<close>

theorem lmh_poll_iteration_witness:
  "qcom_lmh_dcvs_poll (cluster_kernel False 4 62) (cluster_policy False) throttle_polling =
     Some \<lparr>irq_enabled = False, poll_after_ms = Some 10,
           calls = [Update_thermal_pressure [0, 1, 2, 3] 1190400, Mod_delayed_work 10]\<rparr> \<and>
   qcom_lmh_dcvs_poll (cluster_kernel False 4 78) (cluster_policy False) throttle_polling =
     Some \<lparr>irq_enabled = True, poll_after_ms = None,
           calls = [Update_thermal_pressure [0, 1, 2, 3] 1497600, Enable_irq 32]\<rparr> \<and>
   qcom_lmh_dcvs_poll (cluster_kernel True 4 62) (cluster_policy True) throttle_polling =
     Some \<lparr>irq_enabled = False, poll_after_ms = None,
           calls = [Update_thermal_pressure [0, 1, 2, 3] 1190400]\<rparr>"
proof -
  have p: "\<not> irq_enabled throttle_polling" by (simp add: throttle_polling_def)
  have fields: "cancel_throttle (driver_data (cluster_policy c)) = c"
    "throttle_irq (driver_data (cluster_policy c)) = 32"
    "related_cpus (cluster_policy c) = [0, 1, 2, 3]" for c
    by (simp_all add: cluster_policy_def cluster_data_def)
  from lmh_poll_iteration [OF cluster_requested p, of False 62]
  have a: "qcom_lmh_dcvs_poll (cluster_kernel False 4 62) (cluster_policy False) throttle_polling =
     Some \<lparr>irq_enabled = False, poll_after_ms = Some 10,
           calls = [Update_thermal_pressure [0, 1, 2, 3] 1190400, Mod_delayed_work 10]\<rparr>"
    by (auto simp: Let_def fields cluster_throttled_62 throttle_polling_def word_less_nat_alt)
  from lmh_poll_iteration [OF cluster_requested p, of False 78]
  have b: "qcom_lmh_dcvs_poll (cluster_kernel False 4 78) (cluster_policy False) throttle_polling =
     Some \<lparr>irq_enabled = True, poll_after_ms = None,
           calls = [Update_thermal_pressure [0, 1, 2, 3] 1497600, Enable_irq 32]\<rparr>"
    by (auto simp: Let_def fields cluster_throttled_78 throttle_polling_def word_le_nat_alt)
  from lmh_poll_iteration [OF cluster_requested p, of True 62]
  have c: "qcom_lmh_dcvs_poll (cluster_kernel True 4 62) (cluster_policy True) throttle_polling =
     Some \<lparr>irq_enabled = False, poll_after_ms = None,
           calls = [Update_thermal_pressure [0, 1, 2, 3] 1190400]\<rparr>"
    by (auto simp: Let_def fields cluster_throttled_62 throttle_polling_def)
  from a b c show ?thesis by simp
qed

text \<open>
  The other two transitions of the notifier: the interrupt disables the line and
  queues the work item at once; the teardown sets the flag, cancels the work item and
  then frees the interrupt.
\<close>

lemma handle_irq_polls:
  "qcom_lmh_dcvs_handle_irq data t =
     t\<lparr>irq_enabled := False,
       poll_after_ms := (case poll_after_ms t of None \<Rightarrow> Some 0 | Some d \<Rightarrow> Some d),
       calls := calls t @ [Disable_irq_nosync (throttle_irq data), Schedule_delayed_work 0]\<rparr>"
  by (simp add: qcom_lmh_dcvs_handle_irq_def schedule_delayed_work_def disable_irq_nosync_def)

lemma lmh_exit_cancels:
  assumes "0 < throttle_irq data"
  shows "fst (qcom_cpufreq_hw_lmh_exit data t) = data\<lparr>cancel_throttle := True\<rparr> \<and>
         snd (qcom_cpufreq_hw_lmh_exit data t) =
           t\<lparr>irq_enabled := False, poll_after_ms := None,
             calls := calls t @ [Cancel_delayed_work_sync, Free_irq (throttle_irq data)]\<rparr> \<and>
         throttle_mode_of (fst (qcom_cpufreq_hw_lmh_exit data t))
           (snd (qcom_cpufreq_hw_lmh_exit data t)) = Cancelled"
  using assms
  by (simp add: qcom_cpufreq_hw_lmh_exit_def cancel_delayed_work_sync_def free_irq_def
      throttle_mode_of_def)

end
